theory Spec2Isabelle
  imports Complex_Main "HOL-Library.Word" "HOL-Library.Monad_Syntax"
begin

unbundle bit_operations_syntax

section \<open>Colours\<close>

text \<open>
  The importer is C code over raw memory. Bytes are \<open>8 word\<close>, the fixed-width fields of
  the file are words of their width, and the \<open>int\<close> variables of the C code are
  unbounded integers (none of the properties below lives near \<open>INT_MAX\<close>).

  A \<open>float\<close> is modelled by the real number it stands for, and every \<open>float\<close>
  operation of the code by the exact operation followed by the rounding of IEEE 754
  single precision (\<open>float_round\<close> below). The operands of the colour arithmetic are
  \<open>float\<close> variables, \<open>float\<close> literals (\<open>255.0f\<close>, \<open>0.5f\<close>, \<open>1.0f\<close>) and small
  integer constants converted to \<open>float\<close>, so each operation is a single-precision one;
  the model takes it to be rounded once, to nearest with ties to even (no extended
  precision, no fused multiply-add).
\<close>

type_synonym byte = "8 word"

subsection \<open>Single-precision rounding\<close>

text \<open>The integer nearest to \<open>y\<close>, the even one of the two when \<open>y\<close> is half way.\<close>

definition round_even :: "real \<Rightarrow> int" where
  "round_even y =
     (let f = \<lfloor>y\<rfloor>; r = y - of_int f in
      if r < 1 / 2 then f else if 1 / 2 < r then f + 1 else if even f then f else f + 1)"

text \<open>The number of binary digits of a positive integer.\<close>

function bit_length :: "int \<Rightarrow> nat" where
  "bit_length n = (if n \<le> 0 then 0 else Suc (bit_length (n div 2)))"
  by pat_completeness auto
termination by (relation "measure nat") auto

declare bit_length.simps [simp del]

text \<open>
  Rounding to single precision. A normal single-precision number is a multiple
  \<open>m * u\<close> of a power of two \<open>u\<close> with \<open>2 ^ 23 \<le> \<bar>m\<bar> < 2 ^ 24\<close>; its magnitude lies
  between \<open>2 ^ -126\<close> and \<open>2 ^ 128\<close>. For \<open>x\<close> in that range the integer
  \<open>n = \<lfloor>\<bar>x\<bar> * 2 ^ 149\<rfloor>\<close> has the binary digits of \<open>\<bar>x\<bar>\<close> down to the weight
  \<open>2 ^ -149\<close>, at least 24 of them; the unit \<open>u\<close> is the weight of the 24th digit from
  the top, and \<open>x\<close> is rounded to the nearest multiple of \<open>u\<close>, ties to the even
  multiple. \<open>float_round_digits n x\<close> is that multiple, given the digits \<open>n\<close>.

  Zero is kept. Below \<open>2 ^ -126\<close> and from \<open>2 ^ 128\<close> the hardware goes on to subnormal
  numbers and to infinities; the model does not follow it there and keeps \<open>x\<close> as it
  is, so it agrees with the hardware on zero and on the normal range only. The channels
  that the importer makes from bytes are 0 or lie between \<open>2 ^ -8\<close> and 1. The sign
  of a zero is not modelled: the code compares zeros with \<open>==\<close> and \<open><\<close> only, which
  do not see it.
\<close>

definition float_round_digits :: "int \<Rightarrow> real \<Rightarrow> real" where
  "float_round_digits n x =
     (if n < 2 ^ 23 \<or> 2 ^ 277 \<le> n then x
      else let u = 2 ^ (bit_length n - 24) / 2 ^ 149 in of_int (round_even (x / u)) * u)"

definition float_round :: "real \<Rightarrow> real" where
  "float_round x = float_round_digits \<lfloor>\<bar>x\<bar> * 2 ^ 149\<rfloor> x"

text \<open>The \<open>float\<close> operations \<open>a + b\<close>, \<open>a - b\<close> and \<open>a * b\<close>.\<close>

definition fadd :: "real \<Rightarrow> real \<Rightarrow> real" where
  "fadd a b = float_round (a + b)"

definition fsub :: "real \<Rightarrow> real \<Rightarrow> real" where
  "fsub a b = float_round (a - b)"

definition fmul :: "real \<Rightarrow> real \<Rightarrow> real" where
  "fmul a b = float_round (a * b)"

text \<open>The \<open>float\<close> operation \<open>a / b\<close>. A zero divisor would take the computation out
  of the real numbers (to an infinity or a NaN), so the model makes it the value
  \<open>None\<close>.\<close>

definition fdiv :: "real \<Rightarrow> real \<Rightarrow> real option" where
  "fdiv a b = (if b = 0 then None else Some (float_round (a / b)))"

subsection \<open>Colour values\<close>

text \<open>The four bytes of a pixel in memory order (the \<open>RGBA8[4]\<close> view of the union,
  and the bytes one \<open>uint32_t\<close> load or store moves).\<close>

type_synonym rgba8 = "byte \<times> byte \<times> byte \<times> byte"

record aseprite_color =
  R8 :: byte
  G8 :: byte
  B8 :: byte
  A8 :: byte
  R :: real
  G :: real
  B :: real
  A :: real

definition RGBA8 :: "aseprite_color \<Rightarrow> rgba8" where
  "RGBA8 c = (R8 c, G8 c, B8 c, A8 c)"

text \<open>\<open>(aseprite_color){0}\<close>: every member zero.\<close>

definition zero_color :: aseprite_color where
  "zero_color = \<lparr>R8 = 0, G8 = 0, B8 = 0, A8 = 0, R = 0, G = 0, B = 0, A = 0\<rparr>"

text \<open>The cast \<open>(uint8_t)x\<close> of a float: truncation towards zero. For a value outside
  the range of \<open>uint8_t\<close> C leaves the cast undefined; the model wraps modulo 256.\<close>

definition float_to_u8 :: "real \<Rightarrow> byte" where
  "float_to_u8 x = word_of_int (if x < 0 then \<lceil>x\<rceil> else \<lfloor>x\<rfloor>)"

text \<open>The conversion of a byte to \<open>float\<close> is exact.\<close>

definition u8_to_float :: "byte \<Rightarrow> real" where
  "u8_to_float b = real (unat b)"

text \<open>\<open>Result.R8 / 255.0f\<close>: the divisor is a literal, never zero.\<close>

definition u8_over_255 :: "byte \<Rightarrow> real" where
  "u8_over_255 b = float_round (u8_to_float b / 255)"

definition AsepriteColorFromR8G8B8A8 :: "byte \<Rightarrow> byte \<Rightarrow> byte \<Rightarrow> byte \<Rightarrow> aseprite_color" where
  "AsepriteColorFromR8G8B8A8 r g b a =
     \<lparr>R8 = r, G8 = g, B8 = b, A8 = a,
      R = u8_over_255 r, G = u8_over_255 g, B = u8_over_255 b, A = u8_over_255 a\<rparr>"

definition AsepriteColorFromRGBA8 :: "rgba8 \<Rightarrow> aseprite_color" where
  "AsepriteColorFromRGBA8 px =
     (case px of (r, g, b, a) \<Rightarrow>
        \<lparr>R8 = r, G8 = g, B8 = b, A8 = a,
         R = u8_over_255 r, G = u8_over_255 g, B = u8_over_255 b, A = u8_over_255 a\<rparr>)"

definition AsepriteColorFromRGBA :: "real \<Rightarrow> real \<Rightarrow> real \<Rightarrow> real \<Rightarrow> aseprite_color" where
  "AsepriteColorFromRGBA r g b a =
     \<lparr>R8 = float_to_u8 (fmul r 255), G8 = float_to_u8 (fmul g 255),
      B8 = float_to_u8 (fmul b 255), A8 = float_to_u8 (fmul a 255),
      R = r, G = g, B = b, A = a\<rparr>"

section \<open>Blending\<close>

type_synonym aseprite_blend_mode = "16 word"

definition AsepriteBlendMode_Normal :: aseprite_blend_mode where "AsepriteBlendMode_Normal = 0"
definition AsepriteBlendMode_Multiply :: aseprite_blend_mode where "AsepriteBlendMode_Multiply = 1"
definition AsepriteBlendMode_Screen :: aseprite_blend_mode where "AsepriteBlendMode_Screen = 2"
definition AsepriteBlendMode_Overlay :: aseprite_blend_mode where "AsepriteBlendMode_Overlay = 3"
definition AsepriteBlendMode_Darken :: aseprite_blend_mode where "AsepriteBlendMode_Darken = 4"
definition AsepriteBlendMode_Lighten :: aseprite_blend_mode where "AsepriteBlendMode_Lighten = 5"
definition AsepriteBlendMode_ColorDodge :: aseprite_blend_mode where "AsepriteBlendMode_ColorDodge = 6"
definition AsepriteBlendMode_ColorBurn :: aseprite_blend_mode where "AsepriteBlendMode_ColorBurn = 7"
definition AsepriteBlendMode_HardLight :: aseprite_blend_mode where "AsepriteBlendMode_HardLight = 8"
definition AsepriteBlendMode_SoftLight :: aseprite_blend_mode where "AsepriteBlendMode_SoftLight = 9"
definition AsepriteBlendMode_Difference :: aseprite_blend_mode where "AsepriteBlendMode_Difference = 10"
definition AsepriteBlendMode_Exclusion :: aseprite_blend_mode where "AsepriteBlendMode_Exclusion = 11"

definition AsepriteMin :: "real \<Rightarrow> real \<Rightarrow> real" where
  "AsepriteMin a b = (if b < a then b else a)"

definition AsepriteAbs :: "real \<Rightarrow> real" where
  "AsepriteAbs a = (if a < 0 then - a else a)"

text \<open>The switch of \<open>AsepriteCombineColors\<close> computes the red, green and blue value
  with the same expression per mode; \<open>blend_channel m s d\<close> is that expression for the
  source channel \<open>s\<close> and the destination channel \<open>d\<close>, its operations in the order
  in which C groups them (\<open>2*s*d\<close> is \<open>(2*s)*d\<close>).\<close>

definition blend_channel :: "aseprite_blend_mode \<Rightarrow> real \<Rightarrow> real \<Rightarrow> real option" where
  "blend_channel m s d =
    (if m = AsepriteBlendMode_Multiply then Some (fmul s d)
     else if m = AsepriteBlendMode_Screen then Some (fsub 1 (fmul (fsub 1 s) (fsub 1 d)))
     else if m = AsepriteBlendMode_Overlay then
       Some (if d < 1 / 2 then fmul (fmul 2 s) d
             else fsub 1 (fmul (fmul 2 (fsub 1 s)) (fsub 1 d)))
     else if m = AsepriteBlendMode_Darken then Some (if d < s then d else s)
     else if m = AsepriteBlendMode_Lighten then Some (if d > s then d else s)
     else if m = AsepriteBlendMode_ColorDodge then
       do { x \<leftarrow> (if s = 1 then Some 1 else fdiv d (fsub 1 s)); Some (AsepriteMin x 1) }
     else if m = AsepriteBlendMode_ColorBurn then
       (if s = 0 then Some 0
        else do { q \<leftarrow> fdiv (fsub 1 d) s; Some (fsub 1 (AsepriteMin q 1)) })
     else if m = AsepriteBlendMode_HardLight then
       Some (if s < 1 / 2 then fmul (fmul 2 s) d
             else fsub 1 (fmul (fmul 2 (fsub 1 s)) (fsub 1 d)))
     else if m = AsepriteBlendMode_SoftLight then
       Some (fadd (fmul (fmul (fsub 1 (fmul 2 s)) d) d) (fmul (fmul 2 d) s))
     else if m = AsepriteBlendMode_Difference then Some (AsepriteAbs (fsub d s))
     else if m = AsepriteBlendMode_Exclusion then
       Some (fsub (1 / 2) (fmul (fmul 2 (fsub d (1 / 2))) (fsub s (1 / 2))))
     else Some s)"

definition AsepriteCombineColors ::
  "aseprite_color \<Rightarrow> aseprite_color \<Rightarrow> aseprite_blend_mode \<Rightarrow> aseprite_color option" where
  "AsepriteCombineColors Src Dest BlendMode' =
    (let OutAlpha = fadd (A Src) (fmul (A Dest) (fsub 1 (A Src))) in
     if OutAlpha = 0 then Some (AsepriteColorFromRGBA 0 0 0 0)
     else do {
       OutRed \<leftarrow> blend_channel BlendMode' (R Src) (R Dest);
       OutGreen \<leftarrow> blend_channel BlendMode' (G Src) (G Dest);
       OutBlue \<leftarrow> blend_channel BlendMode' (B Src) (B Dest);
       OneOverOutAlpha \<leftarrow> fdiv 1 OutAlpha;
       Some (AsepriteColorFromRGBA
         (fmul (fadd (fmul OutRed (A Src)) (fmul (fmul (R Dest) (A Dest)) (fsub 1 (A Src))))
            OneOverOutAlpha)
         (fmul (fadd (fmul OutGreen (A Src)) (fmul (fmul (G Dest) (A Dest)) (fsub 1 (A Src))))
            OneOverOutAlpha)
         (fmul (fadd (fmul OutBlue (A Src)) (fmul (fmul (B Dest) (A Dest)) (fsub 1 (A Src))))
            OneOverOutAlpha)
         OutAlpha)
     })"

text \<open>Lines 820 to 827 of the compositor: what one pixel of a layer does to the
  destination pixel \<open>Dest\<close>. The first test compares the whole destination word with
  zero; the second test, \<open>*SourceColor.RGBA8 != 0\<close>, dereferences the byte array and
  so reads its first byte, the red one.\<close>

definition composite_pixel ::
  "int \<Rightarrow> rgba8 \<Rightarrow> aseprite_color \<Rightarrow> aseprite_blend_mode \<Rightarrow> rgba8 option" where
  "composite_pixel LayerIndex' Dest SourceColor BlendMode' =
    (if LayerIndex' = 0 \<or> Dest = (0, 0, 0, 0) then Some (RGBA8 SourceColor)
     else if R8 SourceColor \<noteq> 0 then
       do {
         FinalColor \<leftarrow> AsepriteCombineColors SourceColor (AsepriteColorFromRGBA8 Dest) BlendMode';
         Some (RGBA8 FinalColor)
       }
     else Some Dest)"

section \<open>Reading the file\<close>

text \<open>
  The file is a byte buffer \<open>d\<close> and a position in it is an offset. The C code casts the
  position to a pointer to a packed struct or to an integer and reads through it, with
  no check against the end of the buffer. A read that stays inside the buffer yields the
  little-endian value of its bytes; a read that leaves the buffer has no defined
  behaviour in C, and is the value \<open>None\<close> of the model. Every function of the parser
  therefore returns an option: \<open>None\<close> says that the C code left defined behaviour on
  this input, \<open>Some\<close> gives what it computes.
\<close>

definition in_buffer :: "byte list \<Rightarrow> nat \<Rightarrow> nat \<Rightarrow> bool" where
  "in_buffer d off n = (off + n \<le> length d)"

definition u8_at :: "byte list \<Rightarrow> nat \<Rightarrow> byte" where
  "u8_at d off = d ! off"

definition u16_at :: "byte list \<Rightarrow> nat \<Rightarrow> 16 word" where
  "u16_at d off = word_of_nat (unat (d ! off) + 256 * unat (d ! (off + 1)))"

definition u32_at :: "byte list \<Rightarrow> nat \<Rightarrow> 32 word" where
  "u32_at d off =
     word_of_nat (unat (d ! off) + 256 * unat (d ! (off + 1))
       + 65536 * unat (d ! (off + 2)) + 16777216 * unat (d ! (off + 3)))"

definition read_u8 :: "byte list \<Rightarrow> nat \<Rightarrow> byte option" where
  "read_u8 d off = (if in_buffer d off 1 then Some (u8_at d off) else None)"

definition read_u16 :: "byte list \<Rightarrow> nat \<Rightarrow> 16 word option" where
  "read_u16 d off = (if in_buffer d off 2 then Some (u16_at d off) else None)"

text \<open>\<open>memcpy\<close> of \<open>n\<close> bytes out of the file.\<close>

definition read_bytes :: "byte list \<Rightarrow> nat \<Rightarrow> nat \<Rightarrow> byte list option" where
  "read_bytes d off n = (if in_buffer d off n then Some (take n (drop off d)) else None)"

subsection \<open>The packed structs of the file format\<close>

text \<open>Spacer members are left out of the records; they count in the sizes and offsets.\<close>

record aseprite_header =
  FileSize :: "32 word"
  MagicNumber :: "16 word"
  Frames :: "16 word"
  WidthInPixels :: "16 word"
  HeightInPixels :: "16 word"
  ColorDepth :: "16 word"
  Flags :: "32 word"
  Speed :: "16 word"
  TransparentPaletteEntry :: byte
  NumberOfColors :: "16 word"

record aseprite_frame_header =
  BytesInFrame :: "32 word"
  MagicNumber :: "16 word"
  ChunksInFrame :: "16 word"
  FrameDuration :: "16 word"

record aseprite_chunk_header =
  ChunkSize :: "32 word"
  ChunkType :: "16 word"

record aseprite_palette_header =
  NewPaletteSize :: "32 word"
  FirstColorIndexToChange :: "32 word"
  LastColorIndexToChange :: "32 word"

record aseprite_palette_entry =
  Flags :: "16 word"
  Red :: byte
  Green :: byte
  Blue :: byte
  Alpha :: byte

record aseprite_layer_header =
  Flags :: "16 word"
  LayerType :: "16 word"
  LayerChild :: "16 word"
  DefaultLayerWidthInPixels :: "16 word"
  DefaultLayerHeightInPixels :: "16 word"
  BlendMode :: "16 word"
  Opacity :: byte

record aseprite_cel_header =
  LayerIndex :: "16 word"
  XPos :: "16 word"
  YPos :: "16 word"
  Opacity :: byte
  CelType :: "16 word"

text \<open>\<open>sizeof\<close> of the packed structs.\<close>

definition sizeof_header :: nat where "sizeof_header = 128"
definition sizeof_frame_header :: nat where "sizeof_frame_header = 16"
definition sizeof_chunk_header :: nat where "sizeof_chunk_header = 6"
definition sizeof_palette_header :: nat where "sizeof_palette_header = 20"
definition sizeof_palette_entry :: nat where "sizeof_palette_entry = 6"
definition sizeof_layer_header :: nat where "sizeof_layer_header = 16"
definition sizeof_cel_header :: nat where "sizeof_cel_header = 16"

definition read_header :: "byte list \<Rightarrow> nat \<Rightarrow> aseprite_header option" where
  "read_header d off =
    (if in_buffer d off sizeof_header then
       Some \<lparr>FileSize = u32_at d off, aseprite_header.MagicNumber = u16_at d (off + 4),
             aseprite_header.Frames = u16_at d (off + 6), WidthInPixels = u16_at d (off + 8),
             HeightInPixels = u16_at d (off + 10), ColorDepth = u16_at d (off + 12),
             aseprite_header.Flags = u32_at d (off + 14), Speed = u16_at d (off + 18),
             TransparentPaletteEntry = u8_at d (off + 28),
             NumberOfColors = u16_at d (off + 32)\<rparr>
     else None)"

definition read_frame_header :: "byte list \<Rightarrow> nat \<Rightarrow> aseprite_frame_header option" where
  "read_frame_header d off =
    (if in_buffer d off sizeof_frame_header then
       Some \<lparr>BytesInFrame = u32_at d off, aseprite_frame_header.MagicNumber = u16_at d (off + 4),
             ChunksInFrame = u16_at d (off + 6), FrameDuration = u16_at d (off + 8)\<rparr>
     else None)"

definition read_chunk_header :: "byte list \<Rightarrow> nat \<Rightarrow> aseprite_chunk_header option" where
  "read_chunk_header d off =
    (if in_buffer d off sizeof_chunk_header then
       Some \<lparr>ChunkSize = u32_at d off, ChunkType = u16_at d (off + 4)\<rparr>
     else None)"

definition read_palette_header :: "byte list \<Rightarrow> nat \<Rightarrow> aseprite_palette_header option" where
  "read_palette_header d off =
    (if in_buffer d off sizeof_palette_header then
       Some \<lparr>NewPaletteSize = u32_at d off, FirstColorIndexToChange = u32_at d (off + 4),
             LastColorIndexToChange = u32_at d (off + 8)\<rparr>
     else None)"

definition read_palette_entry :: "byte list \<Rightarrow> nat \<Rightarrow> aseprite_palette_entry option" where
  "read_palette_entry d off =
    (if in_buffer d off sizeof_palette_entry then
       Some \<lparr>aseprite_palette_entry.Flags = u16_at d off, Red = u8_at d (off + 2), Green = u8_at d (off + 3),
             Blue = u8_at d (off + 4), Alpha = u8_at d (off + 5)\<rparr>
     else None)"

definition read_layer_header :: "byte list \<Rightarrow> nat \<Rightarrow> aseprite_layer_header option" where
  "read_layer_header d off =
    (if in_buffer d off sizeof_layer_header then
       Some \<lparr>aseprite_layer_header.Flags = u16_at d off, LayerType = u16_at d (off + 2),
             LayerChild = u16_at d (off + 4), DefaultLayerWidthInPixels = u16_at d (off + 6),
             DefaultLayerHeightInPixels = u16_at d (off + 8), BlendMode = u16_at d (off + 10),
             aseprite_layer_header.Opacity = u8_at d (off + 12)\<rparr>
     else None)"

definition read_cel_header :: "byte list \<Rightarrow> nat \<Rightarrow> aseprite_cel_header option" where
  "read_cel_header d off =
    (if in_buffer d off sizeof_cel_header then
       Some \<lparr>LayerIndex = u16_at d off, XPos = u16_at d (off + 2), YPos = u16_at d (off + 4),
             aseprite_cel_header.Opacity = u8_at d (off + 6), CelType = u16_at d (off + 7)\<rparr>
     else None)"

subsection \<open>The parsed document\<close>

text \<open>
  Memory that \<open>malloc\<close> returns, and the local \<open>aseprite_file Result\<close>, start out with
  indeterminate contents. An array cell or a member that was never written is \<open>None\<close>;
  a pointer member that was never set is \<open>None\<close> as well (no array to index). The one
  indeterminate value the parser reads, the \<open>NumLayers\<close> of a fresh frame, is a
  parameter of the parser (see \<open>AsepriteParseFile\<close>).
\<close>

datatype cel_data = Indeterminate | Null | Buffer "byte list"

record aseprite_layer =
  Header :: "aseprite_cel_header option"
  DataWidth :: "int option"
  DataHeight :: "int option"
  Data :: cel_data

definition fresh_layer :: aseprite_layer where
  "fresh_layer = \<lparr>aseprite_layer.Header = None, DataWidth = None, DataHeight = None, Data = Indeterminate\<rparr>"

record aseprite_layer_info =
  Header :: aseprite_layer_header
  Name :: "byte list"

record aseprite_palette =
  Header :: "aseprite_palette_header option"
  NumColors :: "int option"
  Colors :: "aseprite_color option list option"

record aseprite_frame =
  Header :: "aseprite_frame_header option"
  NumLayers :: int
  Layers :: "aseprite_layer list option"

record aseprite_file =
  Header :: aseprite_header
  NumFrames :: int
  Frames :: "aseprite_frame list"
  Palette :: aseprite_palette
  NumLayers :: int
  LayerInfo :: "aseprite_layer_info option list"

record aseprite_string =
  Length :: "16 word"
  String :: nat

record aseprite_parser =
  At :: nat
  AvailableLayers :: int
  UsesNewPalette :: bool

definition AsepriteChunk_OldPalette :: "16 word" where "AsepriteChunk_OldPalette = 0x0004"
definition AsepriteChunk_OldPalette2 :: "16 word" where "AsepriteChunk_OldPalette2 = 0x0011"
definition AsepriteChunk_Layer :: "16 word" where "AsepriteChunk_Layer = 0x2004"
definition AsepriteChunk_Cel :: "16 word" where "AsepriteChunk_Cel = 0x2005"
definition AsepriteChunk_Mask :: "16 word" where "AsepriteChunk_Mask = 0x2016"
definition AsepriteChunk_Path :: "16 word" where "AsepriteChunk_Path = 0x2017"
definition AsepriteChunk_FrameTags :: "16 word" where "AsepriteChunk_FrameTags = 0x2018"
definition AsepriteChunk_Palette :: "16 word" where "AsepriteChunk_Palette = 0x2019"
definition AsepriteChunk_UserData :: "16 word" where "AsepriteChunk_UserData = 0x2020"

definition AsepriteLayerFlags_Visible :: "16 word" where "AsepriteLayerFlags_Visible = 1"

definition AsepriteCelType_Raw :: "16 word" where "AsepriteCelType_Raw = 0"
definition AsepriteCelType_Linked :: "16 word" where "AsepriteCelType_Linked = 1"
definition AsepriteCelType_Compressed :: "16 word" where "AsepriteCelType_Compressed = 2"

section \<open>The parser\<close>

type_synonym palette_table = "aseprite_color option list"

definition AsepriteParseString :: "byte list \<Rightarrow> nat \<Rightarrow> aseprite_string option" where
  "AsepriteParseString d Data' =
     do { Len \<leftarrow> read_u16 d Data'; Some \<lparr>Length = Len, String = Data' + 2\<rparr> }"

text \<open>
  The loop of \<open>AsepriteParsePalette\<close>:
  \<open>for (int EntryIndex = First; EntryIndex <= Last; EntryIndex++)\<close>. The comparison is
  unsigned, so the index runs over the natural numbers from \<open>First\<close>; as an \<open>int\<close> it
  must stay below \<open>INT_MAX\<close> for the increment and the array access to be defined.
  \<open>tab\<close> is the array \<open>File->Palette.Colors\<close>.
\<close>

function palette_entries ::
  "byte list \<Rightarrow> nat \<Rightarrow> nat \<Rightarrow> nat \<Rightarrow> palette_table \<Rightarrow> palette_table option" where
  "palette_entries d Last EntryIndex ChunkData tab =
    (if EntryIndex \<le> Last then
       do {
         PaletteEntry \<leftarrow> read_palette_entry d ChunkData;
         ChunkData1 \<leftarrow>
           (if aseprite_palette_entry.Flags PaletteEntry = 1 then
              do {
                ColorName \<leftarrow> AsepriteParseString d (ChunkData + sizeof_palette_entry);
                Some (ChunkData + sizeof_palette_entry + 2 + unat (Length ColorName))
              }
            else Some (ChunkData + sizeof_palette_entry));
         if EntryIndex < length tab \<and> EntryIndex < 2147483647 then
           palette_entries d Last (EntryIndex + 1) ChunkData1
             (tab[EntryIndex := Some (AsepriteColorFromR8G8B8A8 (Red PaletteEntry)
                (Green PaletteEntry) (Blue PaletteEntry) (Alpha PaletteEntry))])
         else None
       }
     else Some tab)"
  by pat_completeness auto
termination
  by (relation "measure (\<lambda>(d, Last, EntryIndex, ChunkData, tab). Suc Last - EntryIndex)") auto

declare palette_entries.simps [simp del]

text \<open>\<open>AsepriteParsePalette\<close>: the table is a fresh \<open>malloc\<close> of \<open>NewPaletteSize\<close>
  colours, whatever table the file had before.\<close>

definition AsepriteParsePalette :: "byte list \<Rightarrow> aseprite_file \<Rightarrow> nat \<Rightarrow> aseprite_file option" where
  "AsepriteParsePalette d File ChunkData =
    do {
      PaletteHeader \<leftarrow> read_palette_header d ChunkData;
      tab \<leftarrow> palette_entries d (unat (LastColorIndexToChange PaletteHeader))
               (unat (FirstColorIndexToChange PaletteHeader))
               (ChunkData + sizeof_palette_header)
               (replicate (unat (NewPaletteSize PaletteHeader)) None);
      Some (File\<lparr>Palette :=
        \<lparr>aseprite_palette.Header = Some PaletteHeader,
         NumColors = Some (sint (NewPaletteSize PaletteHeader)),
         Colors = Some tab\<rparr>\<rparr>)
    }"

text \<open>The inner loop of \<open>AsepriteParseOldPalette\<close>:
  \<open>for (int ColorIndex = StartIndex; ColorIndex < StartIndex + NumColors16; ColorIndex++)\<close>,
  with \<open>End\<close> for the bound. It returns the advanced \<open>ChunkData\<close> and the table.\<close>

function old_palette_colors ::
  "byte list \<Rightarrow> nat \<Rightarrow> nat \<Rightarrow> nat \<Rightarrow> palette_table \<Rightarrow> (nat \<times> palette_table) option" where
  "old_palette_colors d End ColorIndex ChunkData tab =
    (if ColorIndex < End then
       do {
         Red' \<leftarrow> read_u8 d ChunkData;
         Green' \<leftarrow> read_u8 d (ChunkData + 1);
         Blue' \<leftarrow> read_u8 d (ChunkData + 2);
         if ColorIndex < length tab then
           old_palette_colors d End (ColorIndex + 1) (ChunkData + 3)
             (tab[ColorIndex := Some (AsepriteColorFromR8G8B8A8 Red' Green' Blue' 255)])
         else None
       }
     else Some (ChunkData, tab))"
  by pat_completeness auto
termination
  by (relation "measure (\<lambda>(d, End, ColorIndex, ChunkData, tab). End - ColorIndex)") auto

declare old_palette_colors.simps [simp del]

text \<open>One packet: the body of the outer loop.\<close>

definition old_palette_packet ::
  "byte list \<Rightarrow> nat \<Rightarrow> palette_table \<Rightarrow> (nat \<times> palette_table) option" where
  "old_palette_packet d ChunkData tab =
    do {
      StartIndex \<leftarrow> read_u8 d ChunkData;
      NumColors' \<leftarrow> read_u8 d (ChunkData + 1);
      let NumColors16 = (if NumColors' = 0 then 256 else unat NumColors');
      old_palette_colors d (unat StartIndex + NumColors16) (unat StartIndex) (ChunkData + 2) tab
    }"

function old_palette_packets ::
  "byte list \<Rightarrow> nat \<Rightarrow> nat \<Rightarrow> nat \<Rightarrow> palette_table \<Rightarrow> palette_table option" where
  "old_palette_packets d Packets PacketIndex ChunkData tab =
    (if PacketIndex < Packets then
       (case old_palette_packet d ChunkData tab of
          None \<Rightarrow> None
        | Some (ChunkData1, tab1) \<Rightarrow> old_palette_packets d Packets (PacketIndex + 1) ChunkData1 tab1)
     else Some tab)"
  by pat_completeness auto
termination
  by (relation "measure (\<lambda>(d, Packets, PacketIndex, ChunkData, tab). Packets - PacketIndex)") auto

declare old_palette_packets.simps [simp del]

text \<open>\<open>AsepriteParseOldPalette\<close>: a fresh \<open>malloc\<close> of 256 colours; \<open>NumColors\<close> and
  the header of the palette are not touched.\<close>

definition AsepriteParseOldPalette :: "byte list \<Rightarrow> aseprite_file \<Rightarrow> nat \<Rightarrow> aseprite_file option" where
  "AsepriteParseOldPalette d File ChunkData =
    do {
      Packets \<leftarrow> read_u16 d ChunkData;
      tab \<leftarrow> old_palette_packets d (unat Packets) 0 (ChunkData + 2) (replicate 256 None);
      Some (File\<lparr>Palette := (Palette File)\<lparr>Colors := Some tab\<rparr>\<rparr>)
    }"

text \<open>
  \<open>AsepriteParseCel\<close>. \<open>tinfl\<close> stands for \<open>tinfl_decompress_mem_to_heap\<close> of tinfl.c,
  which is not part of the importer: it maps the compressed bytes to the decompressed
  ones, or fails (a null pointer). \<open>DataSize\<close> is an \<open>int\<close> computed through
  \<open>size_t\<close>, which amounts to 32-bit wrap-around; a negative \<open>DataSize\<close> makes the
  \<open>memcpy\<close> (or the decompressor's read) leave the buffer. \<open>cel_pixels\<close> is the
  switch on the cel type, applied to the slot \<open>Layer\<close> whose header is already set.
\<close>

definition cel_pixels ::
  "(byte list \<Rightarrow> byte list option) \<Rightarrow> byte list \<Rightarrow> aseprite_layer \<Rightarrow> 16 word \<Rightarrow>
     nat \<Rightarrow> int \<Rightarrow> aseprite_layer option" where
  "cel_pixels tinfl d Layer Type ChunkData ChunkLength =
    (if Type = AsepriteCelType_Raw then
       do {
         WidthInPixels' \<leftarrow> read_u16 d ChunkData;
         HeightInPixels' \<leftarrow> read_u16 d (ChunkData + 2);
         let DataSize = sint ((word_of_int ChunkLength :: 32 word) - 16 - 4);
         bytes \<leftarrow> (if DataSize < 0 then None else read_bytes d (ChunkData + 4) (nat DataSize));
         Some (Layer\<lparr>DataWidth := Some (uint WidthInPixels'),
                     DataHeight := Some (uint HeightInPixels'),
                     Data := Buffer bytes\<rparr>)
       }
     else if Type = AsepriteCelType_Linked then Some Layer
     else if Type = AsepriteCelType_Compressed then
       do {
         WidthInPixels' \<leftarrow> read_u16 d ChunkData;
         HeightInPixels' \<leftarrow> read_u16 d (ChunkData + 2);
         let DataSize = sint ((word_of_int ChunkLength :: 32 word) - 16 - 4);
         bytes \<leftarrow> (if DataSize < 0 then None else read_bytes d (ChunkData + 4) (nat DataSize));
         Some (Layer\<lparr>DataWidth := Some (uint WidthInPixels'),
                     DataHeight := Some (uint HeightInPixels'),
                     Data := (case tinfl bytes of None \<Rightarrow> Null | Some out \<Rightarrow> Buffer out)\<rparr>)
       }
     else Some Layer)"

definition AsepriteParseCel ::
  "(byte list \<Rightarrow> byte list option) \<Rightarrow> byte list \<Rightarrow> aseprite_frame \<Rightarrow> nat \<Rightarrow> int \<Rightarrow>
     aseprite_frame option" where
  "AsepriteParseCel tinfl d Frame ChunkData ChunkLength =
    do {
      CelHeader \<leftarrow> read_cel_header d ChunkData;
      slots \<leftarrow> Layers Frame;
      let i = unat (LayerIndex CelHeader);
      if i < length slots then
        do {
          Layer \<leftarrow> cel_pixels tinfl d ((slots ! i)\<lparr>aseprite_layer.Header := Some CelHeader\<rparr>)
                     (CelType CelHeader) (ChunkData + sizeof_cel_header) ChunkLength;
          Some (Frame\<lparr>Layers := Some (slots[i := Layer])\<rparr>)
        }
      else None
    }"

text \<open>\<open>realloc\<close> of the layer table to \<open>n\<close> cells: the old cells are kept, the new
  ones are indeterminate.\<close>

definition realloc_layer_info ::
  "aseprite_layer_info option list \<Rightarrow> nat \<Rightarrow> aseprite_layer_info option list" where
  "realloc_layer_info xs n = take n xs @ replicate (n - length xs) None"

definition AsepriteParseLayer ::
  "byte list \<Rightarrow> aseprite_file \<Rightarrow> aseprite_parser \<Rightarrow> nat \<Rightarrow> (aseprite_file \<times> aseprite_parser) option" where
  "AsepriteParseLayer d File Parser ChunkData =
    (let grow = (aseprite_file.NumLayers File = AvailableLayers Parser);
         Parser1 = (if grow then Parser\<lparr>AvailableLayers := AvailableLayers Parser * 2\<rparr> else Parser);
         File1 = (if grow then
                    File\<lparr>LayerInfo := realloc_layer_info (LayerInfo File) (nat (AvailableLayers Parser1))\<rparr>
                  else File);
         n = aseprite_file.NumLayers File1
     in
     if 0 \<le> n \<and> nat n < length (LayerInfo File1) then
       do {
         LayerHeader \<leftarrow> read_layer_header d ChunkData;
         LayerName \<leftarrow> AsepriteParseString d (ChunkData + sizeof_layer_header);
         name \<leftarrow> read_bytes d (String LayerName) (unat (Length LayerName));
         Some (File1\<lparr>aseprite_file.NumLayers := n + 1,
                     LayerInfo := (LayerInfo File1)[nat n :=
                       Some \<lparr>aseprite_layer_info.Header = LayerHeader, Name = name\<rparr>]\<rparr>,
               Parser1)
       }
     else None)"

text \<open>
  \<open>AsepriteParseChunk\<close>. The cursor is moved to the end of the chunk before the switch.
  The case of \<open>AsepriteChunk_OldPalette2\<close> only prints, as do the cases of the mask,
  path, frame-tags and user-data chunks; the switch has no default.
\<close>

definition AsepriteParseChunk ::
  "(byte list \<Rightarrow> byte list option) \<Rightarrow> byte list \<Rightarrow> aseprite_file \<Rightarrow> aseprite_frame \<Rightarrow>
     aseprite_parser \<Rightarrow> (aseprite_file \<times> aseprite_frame \<times> aseprite_parser) option" where
  "AsepriteParseChunk tinfl d File Frame Parser =
    do {
      ChunkHeader \<leftarrow> read_chunk_header d (At Parser);
      let ChunkData = At Parser + sizeof_chunk_header;
      let Parser1 = Parser\<lparr>At := At Parser + unat (ChunkSize ChunkHeader)\<rparr>;
      if ChunkType ChunkHeader = AsepriteChunk_OldPalette then
        (if \<not> UsesNewPalette Parser1 then
           do { File1 \<leftarrow> AsepriteParseOldPalette d File ChunkData; Some (File1, Frame, Parser1) }
         else Some (File, Frame, Parser1))
      else if ChunkType ChunkHeader = AsepriteChunk_OldPalette2 then Some (File, Frame, Parser1)
      else if ChunkType ChunkHeader = AsepriteChunk_Layer then
        do {
          (File1, Parser2) \<leftarrow> AsepriteParseLayer d File Parser1 ChunkData;
          Some (File1, Frame, Parser2)
        }
      else if ChunkType ChunkHeader = AsepriteChunk_Cel then
        do {
          let Frame1 =
            (if aseprite_frame.NumLayers Frame \<noteq> aseprite_file.NumLayers File then
               Frame\<lparr>aseprite_frame.NumLayers := aseprite_file.NumLayers File,
                     Layers := Some (replicate (nat (aseprite_file.NumLayers File)) fresh_layer)\<rparr>
             else Frame);
          Frame2 \<leftarrow> AsepriteParseCel tinfl d Frame1 ChunkData
                      (sint (ChunkSize ChunkHeader - 6));
          Some (File, Frame2, Parser1)
        }
      else if ChunkType ChunkHeader = AsepriteChunk_Mask then Some (File, Frame, Parser1)
      else if ChunkType ChunkHeader = AsepriteChunk_Path then Some (File, Frame, Parser1)
      else if ChunkType ChunkHeader = AsepriteChunk_FrameTags then Some (File, Frame, Parser1)
      else if ChunkType ChunkHeader = AsepriteChunk_Palette then
        do {
          let Parser2 = Parser1\<lparr>UsesNewPalette := True\<rparr>;
          File1 \<leftarrow> AsepriteParsePalette d File ChunkData;
          Some (File1, Frame, Parser2)
        }
      else if ChunkType ChunkHeader = AsepriteChunk_UserData then Some (File, Frame, Parser1)
      else Some (File, Frame, Parser1)
    }"

text \<open>The loop of \<open>AsepriteParseFrame\<close>:
  \<open>for (int ChunkIndex = 0; ChunkIndex < ChunksInFrame; ChunkIndex++)\<close>.\<close>

function chunk_loop ::
  "(byte list \<Rightarrow> byte list option) \<Rightarrow> byte list \<Rightarrow> nat \<Rightarrow> nat \<Rightarrow>
     aseprite_file \<times> aseprite_frame \<times> aseprite_parser \<Rightarrow>
     (aseprite_file \<times> aseprite_frame \<times> aseprite_parser) option" where
  "chunk_loop tinfl d n ChunkIndex (File, Frame, Parser) =
    (if ChunkIndex < n then
       (case AsepriteParseChunk tinfl d File Frame Parser of
          None \<Rightarrow> None
        | Some st \<Rightarrow> chunk_loop tinfl d n (ChunkIndex + 1) st)
     else Some (File, Frame, Parser))"
  by pat_completeness auto
termination
  by (relation "measure (\<lambda>(tinfl, d, n, ChunkIndex, st). n - ChunkIndex)") auto

declare chunk_loop.simps [simp del]

definition AsepriteParseFrame ::
  "(byte list \<Rightarrow> byte list option) \<Rightarrow> byte list \<Rightarrow> aseprite_file \<Rightarrow> aseprite_frame \<Rightarrow>
     aseprite_parser \<Rightarrow> (aseprite_file \<times> aseprite_frame \<times> aseprite_parser) option" where
  "AsepriteParseFrame tinfl d File Frame Parser =
    do {
      FrameHeader \<leftarrow> read_frame_header d (At Parser);
      let Parser1 = Parser\<lparr>At := At Parser + sizeof_frame_header\<rparr>;
      let Frame1 = Frame\<lparr>aseprite_frame.Header := Some FrameHeader\<rparr>;
      chunk_loop tinfl d (unat (ChunksInFrame FrameHeader)) 0 (File, Frame1, Parser1)
    }"

text \<open>The loop of \<open>AsepriteParseFile\<close> over the frames. The frame is handed to
  \<open>AsepriteParseFrame\<close> by pointer into \<open>File->Frames\<close>; the model takes it out of the
  array and stores it back.\<close>

function frame_loop ::
  "(byte list \<Rightarrow> byte list option) \<Rightarrow> byte list \<Rightarrow> nat \<Rightarrow> nat \<Rightarrow>
     aseprite_file \<times> aseprite_parser \<Rightarrow> (aseprite_file \<times> aseprite_parser) option" where
  "frame_loop tinfl d n FrameIndex (File, Parser) =
    (if FrameIndex < n then
       (if FrameIndex < length (aseprite_file.Frames File) then
          (case AsepriteParseFrame tinfl d File (aseprite_file.Frames File ! FrameIndex) Parser of
             None \<Rightarrow> None
           | Some (File1, Frame1, Parser1) \<Rightarrow>
               frame_loop tinfl d n (FrameIndex + 1)
                 (File1\<lparr>aseprite_file.Frames := (aseprite_file.Frames File1)[FrameIndex := Frame1]\<rparr>,
                  Parser1))
        else None)
     else Some (File, Parser))"
  by pat_completeness auto
termination
  by (relation "measure (\<lambda>(tinfl, d, n, FrameIndex, st). n - FrameIndex)") auto

declare frame_loop.simps [simp del]

text \<open>
  \<open>AsepriteParseFile\<close>. \<open>Result\<close> is an uninitialised local, the frames and the layer
  table are fresh \<open>malloc\<close>s. \<open>garbage i\<close> is the indeterminate value that the member
  \<open>NumLayers\<close> of frame \<open>i\<close> holds before its first cel chunk compares it.
\<close>

definition AsepriteParseFile ::
  "(byte list \<Rightarrow> byte list option) \<Rightarrow> (nat \<Rightarrow> int) \<Rightarrow> byte list \<Rightarrow> aseprite_file option" where
  "AsepriteParseFile tinfl garbage FileData =
    do {
      Header' \<leftarrow> read_header FileData 0;
      let Parser = \<lparr>At = sizeof_header, AvailableLayers = 2, UsesNewPalette = False\<rparr>;
      let n = unat (aseprite_header.Frames Header');
      let Result =
        \<lparr>aseprite_file.Header = Header',
         NumFrames = int n,
         aseprite_file.Frames =
           map (\<lambda>i. \<lparr>aseprite_frame.Header = None, aseprite_frame.NumLayers = garbage i,
                      Layers = None\<rparr>) [0..<n],
         Palette = \<lparr>aseprite_palette.Header = None, NumColors = None, Colors = None\<rparr>,
         aseprite_file.NumLayers = 0,
         LayerInfo = replicate 2 None\<rparr>;
      (Result1, Parser1) \<leftarrow> frame_loop tinfl FileData n 0 (Result, Parser);
      Some Result1
    }"

section \<open>The frame compositor\<close>

text \<open>
  \<open>AsepriteGetEntireFrameRGBA\<close> writes into the caller's buffer \<open>DestTexture\<close>, a
  byte list here; \<open>Dest\<close> and \<open>Source\<close> are byte offsets into the destination and into
  the cel's pixel data. An access outside a buffer, through a null or indeterminate
  pointer, or to an indeterminate value is \<open>None\<close>, as in the parser.
\<close>

datatype error = FrameIndexOutOfRange | UndefinedBehaviour

definition cel_byte :: "cel_data \<Rightarrow> int \<Rightarrow> byte option" where
  "cel_byte CelData off =
    (case CelData of
       Buffer bs \<Rightarrow> (if 0 \<le> off \<and> nat off < length bs then Some (bs ! nat off) else None)
     | Null \<Rightarrow> None
     | Indeterminate \<Rightarrow> None)"

definition read_pixel :: "byte list \<Rightarrow> int \<Rightarrow> rgba8 option" where
  "read_pixel tex off =
    (if 0 \<le> off \<and> nat off + 4 \<le> length tex then
       Some (tex ! nat off, tex ! (nat off + 1), tex ! (nat off + 2), tex ! (nat off + 3))
     else None)"

definition write_pixel :: "byte list \<Rightarrow> int \<Rightarrow> rgba8 \<Rightarrow> byte list" where
  "write_pixel tex off px =
    (case px of (r, g, b, a) \<Rightarrow>
       tex[nat off := r, nat off + 1 := g, nat off + 2 := b, nat off + 3 := a])"

text \<open>\<open>Palette->Colors[PaletteIndex]\<close>.\<close>

definition palette_color :: "aseprite_palette \<Rightarrow> byte \<Rightarrow> aseprite_color option" where
  "palette_color pal PaletteIndex =
    (case Colors pal of
       None \<Rightarrow> None
     | Some tab \<Rightarrow> (if unat PaletteIndex < length tab then tab ! unat PaletteIndex else None))"

text \<open>The switch on \<open>ColorDepth\<close> (lines 794 to 810): the colour of the source pixel
  at \<open>Source\<close> and the advanced \<open>Source\<close>. For a depth other than 8 and 32 no case
  assigns \<open>SourceColor\<close>.\<close>

definition source_color ::
  "aseprite_palette \<Rightarrow> byte \<Rightarrow> 16 word \<Rightarrow> cel_data \<Rightarrow> int \<Rightarrow> (aseprite_color \<times> int) option" where
  "source_color pal TransparentPaletteEntry' ColorDepth' CelData Source =
    (if ColorDepth' = 8 then
       do {
         PaletteIndex \<leftarrow> cel_byte CelData Source;
         if PaletteIndex = TransparentPaletteEntry' then Some (zero_color, Source + 1)
         else do { c \<leftarrow> palette_color pal PaletteIndex; Some (c, Source + 1) }
       }
     else if ColorDepth' = 32 then
       do {
         r \<leftarrow> cel_byte CelData Source;
         g \<leftarrow> cel_byte CelData (Source + 1);
         b \<leftarrow> cel_byte CelData (Source + 2);
         a \<leftarrow> cel_byte CelData (Source + 3);
         Some (AsepriteColorFromRGBA8 (r, g, b, a), Source + 4)
       }
     else None)"

text \<open>Lines 811 to 819: the opacity of the layer scales the alpha of the source.\<close>

definition layer_opacity :: "real \<Rightarrow> aseprite_color \<Rightarrow> aseprite_color" where
  "layer_opacity LayerOpacity SourceColor =
    (if LayerOpacity = 0 then zero_color
     else if LayerOpacity \<noteq> 1 then
       SourceColor\<lparr>A8 := float_to_u8 (fmul (fmul (A SourceColor) LayerOpacity) 255),
                    A := fmul (A SourceColor) LayerOpacity\<rparr>
     else SourceColor)"

text \<open>What stays fixed while the pixels of one layer are drawn.\<close>

record layer_pass =
  pass_File :: aseprite_file
  pass_LayerIndex :: int
  pass_BlendMode :: aseprite_blend_mode
  pass_CelData :: cel_data
  pass_LayerOpacity :: real
  pass_DestWidth :: int
  pass_DestHeight :: int
  pass_DestX :: int
  pass_DestY :: int
  pass_DestPitch :: int
  pass_DestStartX :: int
  pass_DataPitch :: int
  pass_StartX :: int
  pass_StartY :: int

text \<open>The loop \<open>for (int X = 0; X < Width; X++)\<close> of one row.\<close>

function X_loop :: "layer_pass \<Rightarrow> int \<Rightarrow> int \<Rightarrow> int \<Rightarrow> byte list \<Rightarrow> byte list option" where
  "X_loop p X Dest Source tex =
    (if X < uint (WidthInPixels (aseprite_file.Header (pass_File p))) then
       (if X + pass_DestX p < 0 then X_loop p (X + 1) Dest Source tex
        else if X + pass_DestX p \<ge> pass_DestWidth p then Some tex
        else
          (case source_color (Palette (pass_File p))
                  (TransparentPaletteEntry (aseprite_file.Header (pass_File p)))
                  (ColorDepth (aseprite_file.Header (pass_File p)))
                  (pass_CelData p) Source of
             None \<Rightarrow> None
           | Some (SourceColor, Source1) \<Rightarrow>
               (case read_pixel tex Dest of
                  None \<Rightarrow> None
                | Some px \<Rightarrow>
                    (case composite_pixel (pass_LayerIndex p) px
                            (layer_opacity (pass_LayerOpacity p) SourceColor) (pass_BlendMode p) of
                       None \<Rightarrow> None
                     | Some px1 \<Rightarrow> X_loop p (X + 1) (Dest + 4) Source1 (write_pixel tex Dest px1)))))
     else Some tex)"
  by pat_completeness auto
termination
  by (relation "measure (\<lambda>(p, X, Dest, Source, tex).
        nat (uint (WidthInPixels (aseprite_file.Header (pass_File p))) - X))") auto

declare X_loop.simps [simp del]

text \<open>The loop \<open>for (int Y = 0; Y < Height; Y++)\<close> over the rows.\<close>

function Y_loop :: "layer_pass \<Rightarrow> int \<Rightarrow> byte list \<Rightarrow> byte list option" where
  "Y_loop p Y tex =
    (if Y < uint (HeightInPixels (aseprite_file.Header (pass_File p))) then
       (if Y + pass_DestY p < 0 then Y_loop p (Y + 1) tex
        else if Y + pass_DestY p \<ge> pass_DestHeight p then Some tex
        else
          (case X_loop p 0 ((pass_DestY p + Y) * pass_DestPitch p + pass_DestStartX p)
                  ((pass_StartY p + Y) * pass_DataPitch p + pass_StartX p) tex of
             None \<Rightarrow> None
           | Some tex1 \<Rightarrow> Y_loop p (Y + 1) tex1))
     else Some tex)"
  by pat_completeness auto
termination
  by (relation "measure (\<lambda>(p, Y, tex).
        nat (uint (HeightInPixels (aseprite_file.Header (pass_File p))) - Y))") auto

declare Y_loop.simps [simp del]

text \<open>\<open>File->LayerInfo + LayerIndex\<close> and \<open>Frame->Layers + LayerIndex\<close>, dereferenced.\<close>

definition layer_info_at :: "aseprite_file \<Rightarrow> int \<Rightarrow> aseprite_layer_info option" where
  "layer_info_at File i =
    (if 0 \<le> i \<and> nat i < length (LayerInfo File) then LayerInfo File ! nat i else None)"

definition layer_at :: "aseprite_frame \<Rightarrow> int \<Rightarrow> aseprite_layer option" where
  "layer_at Frame i =
    (case Layers Frame of
       None \<Rightarrow> None
     | Some slots \<Rightarrow> (if 0 \<le> i \<and> nat i < length slots then Some (slots ! nat i) else None))"

text \<open>The body of the layer loop after the visibility test (lines 759 to 830).\<close>

definition draw_layer ::
  "aseprite_file \<Rightarrow> aseprite_frame \<Rightarrow> int \<Rightarrow> int \<Rightarrow> int \<Rightarrow> int \<Rightarrow> int \<Rightarrow> aseprite_layer_info \<Rightarrow>
     byte list \<Rightarrow> byte list option" where
  "draw_layer File Frame DestWidth DestHeight DestX DestY LayerIndex' Info tex =
    do {
      Layer \<leftarrow> layer_at Frame LayerIndex';
      Width' \<leftarrow> DataWidth Layer;
      CelHeader \<leftarrow> aseprite_layer.Header Layer;
      let ColorDepth' = ColorDepth (aseprite_file.Header File);
      let DataPitch = (if ColorDepth' = 32 then Width' * 4 else Width');
      let StartX = (if ColorDepth' = 32 then (0 - sint (XPos CelHeader)) * 4
                    else 0 - sint (XPos CelHeader));
      Y_loop
        \<lparr>pass_File = File,
         pass_LayerIndex = LayerIndex',
         pass_BlendMode = BlendMode (aseprite_layer_info.Header Info),
         pass_CelData = Data Layer,
         pass_LayerOpacity =
           u8_over_255 (aseprite_layer_header.Opacity (aseprite_layer_info.Header Info)),
         pass_DestWidth = DestWidth,
         pass_DestHeight = DestHeight,
         pass_DestX = DestX,
         pass_DestY = DestY,
         pass_DestPitch = DestWidth * 4,
         pass_DestStartX = (if DestX < 0 then 0 else DestX * 4),
         pass_DataPitch = DataPitch,
         pass_StartX = StartX,
         pass_StartY = 0 - sint (YPos CelHeader)\<rparr>
        0 tex
    }"

text \<open>The loop \<open>for (int LayerIndex = 0; LayerIndex < File->NumLayers; LayerIndex++)\<close>.\<close>

function layer_loop ::
  "aseprite_file \<Rightarrow> aseprite_frame \<Rightarrow> int \<Rightarrow> int \<Rightarrow> int \<Rightarrow> int \<Rightarrow> int \<Rightarrow> byte list \<Rightarrow>
     byte list option" where
  "layer_loop File Frame DestWidth DestHeight DestX DestY LayerIndex' tex =
    (if LayerIndex' < aseprite_file.NumLayers File then
       (case layer_info_at File LayerIndex' of
          None \<Rightarrow> None
        | Some Info \<Rightarrow>
            (if aseprite_layer_header.Opacity (aseprite_layer_info.Header Info) = 0
                \<or> (aseprite_layer_header.Flags (aseprite_layer_info.Header Info)
                      AND AsepriteLayerFlags_Visible) = 0
             then layer_loop File Frame DestWidth DestHeight DestX DestY (LayerIndex' + 1) tex
             else
               (case draw_layer File Frame DestWidth DestHeight DestX DestY LayerIndex' Info tex of
                  None \<Rightarrow> None
                | Some tex1 \<Rightarrow>
                    layer_loop File Frame DestWidth DestHeight DestX DestY (LayerIndex' + 1) tex1)))
     else Some tex)"
  by pat_completeness auto
termination
  by (relation "measure (\<lambda>(File, Frame, DestWidth, DestHeight, DestX, DestY, LayerIndex', tex).
        nat (aseprite_file.NumLayers File - LayerIndex'))") auto

declare layer_loop.simps [simp del]

text \<open>
  Modelled from the spec: the macro \<open>Assert\<close>, which the importer uses and does not
  define. A failed \<open>Assert(FrameNumber < File->NumFrames)\<close> ends the call with the error
  that the specification names \<open>FrameIndexOutOfRange\<close>, before anything is written.
\<close>

definition AsepriteGetEntireFrameRGBA ::
  "aseprite_file \<Rightarrow> int \<Rightarrow> byte list \<Rightarrow> int \<Rightarrow> int \<Rightarrow> int \<Rightarrow> int \<Rightarrow> error + byte list" where
  "AsepriteGetEntireFrameRGBA File FrameNumber DestTexture DestWidth DestHeight DestX DestY =
    (if \<not> FrameNumber < NumFrames File then Inl FrameIndexOutOfRange
     else if 0 \<le> FrameNumber \<and> nat FrameNumber < length (aseprite_file.Frames File) then
       (case layer_loop File (aseprite_file.Frames File ! nat FrameNumber)
               DestWidth DestHeight DestX DestY 0 DestTexture of
          None \<Rightarrow> Inl UndefinedBehaviour
        | Some tex \<Rightarrow> Inr tex)
     else Inl UndefinedBehaviour)"

section \<open>The chunks of a file\<close>

text \<open>
  Notions used to state properties of whole files; they are not part of the importer.
  \<open>chunk_types d n i pos\<close> walks the chunks \<open>i\<close>, ..., \<open>n - 1\<close> of a frame from offset
  \<open>pos\<close> by their declared sizes and lists their type codes, with the offset after the
  last one; \<open>file_chunk_types\<close> lists the type codes of all chunks of all frames of a
  file in order. \<open>None\<close> means that a header lies outside the buffer.
\<close>

function chunk_types :: "byte list \<Rightarrow> nat \<Rightarrow> nat \<Rightarrow> nat \<Rightarrow> (16 word list \<times> nat) option" where
  "chunk_types d n ChunkIndex pos =
    (if ChunkIndex < n then
       (case read_chunk_header d pos of
          None \<Rightarrow> None
        | Some h \<Rightarrow>
            (case chunk_types d n (ChunkIndex + 1) (pos + unat (ChunkSize h)) of
               None \<Rightarrow> None
             | Some (ts, e) \<Rightarrow> Some (ChunkType h # ts, e)))
     else Some ([], pos))"
  by pat_completeness auto
termination
  by (relation "measure (\<lambda>(d, n, ChunkIndex, pos). n - ChunkIndex)") auto

declare chunk_types.simps [simp del]

function frame_chunk_types :: "byte list \<Rightarrow> nat \<Rightarrow> nat \<Rightarrow> nat \<Rightarrow> 16 word list option" where
  "frame_chunk_types d n FrameIndex pos =
    (if FrameIndex < n then
       (case read_frame_header d pos of
          None \<Rightarrow> None
        | Some fh \<Rightarrow>
            (case chunk_types d (unat (ChunksInFrame fh)) 0 (pos + sizeof_frame_header) of
               None \<Rightarrow> None
             | Some (ts, e) \<Rightarrow>
                 (case frame_chunk_types d n (FrameIndex + 1) e of
                    None \<Rightarrow> None
                  | Some ts1 \<Rightarrow> Some (ts @ ts1))))
     else Some [])"
  by pat_completeness auto
termination
  by (relation "measure (\<lambda>(d, n, FrameIndex, pos). n - FrameIndex)") auto

declare frame_chunk_types.simps [simp del]

definition file_chunk_types :: "byte list \<Rightarrow> 16 word list option" where
  "file_chunk_types d =
    (case read_header d 0 of
       None \<Rightarrow> None
     | Some h \<Rightarrow> frame_chunk_types d (unat (aseprite_header.Frames h)) 0 sizeof_header)"

text \<open>The palette of the document is an allocated table of 256 entries.\<close>

definition legacy_table :: "aseprite_file \<Rightarrow> bool" where
  "legacy_table File =
    (case Colors (Palette File) of None \<Rightarrow> False | Some tab \<Rightarrow> length tab = 256)"

text \<open>
  What a run of chunks with the type codes \<open>ts\<close> does to the flag \<open>UsesNewPalette\<close> and
  to the palette, from the parser state \<open>P\<close> and document \<open>File\<close> to \<open>P'\<close> and
  \<open>File'\<close>: the flag stays set once set; and in a run without a modern palette chunk
  the flag does not change, the palette is untouched when the flag is set or when the
  run has no chunk of type \<open>0x0004\<close>, and is a table of 256 entries otherwise.
\<close>

definition palette_run ::
  "aseprite_parser \<Rightarrow> aseprite_file \<Rightarrow> 16 word list \<Rightarrow> aseprite_parser \<Rightarrow> aseprite_file \<Rightarrow> bool" where
  "palette_run P File ts P' File' =
    ((UsesNewPalette P \<longrightarrow> UsesNewPalette P')
     \<and> (AsepriteChunk_Palette \<notin> set ts \<longrightarrow>
          UsesNewPalette P' = UsesNewPalette P
          \<and> (UsesNewPalette P \<or> AsepriteChunk_OldPalette \<notin> set ts \<longrightarrow> Palette File' = Palette File)
          \<and> (\<not> UsesNewPalette P \<and> AsepriteChunk_OldPalette \<in> set ts \<longrightarrow> legacy_table File')))"

section \<open>Example documents\<close>

text \<open>Small documents and buffers, used to run the definitions above on concrete
  inputs.\<close>

definition hidden_layer_info :: aseprite_layer_info where
  "hidden_layer_info =
     \<lparr>aseprite_layer_info.Header =
        \<lparr>aseprite_layer_header.Flags = 0, LayerType = 0, LayerChild = 0,
         DefaultLayerWidthInPixels = 0, DefaultLayerHeightInPixels = 0, BlendMode = 0,
         aseprite_layer_header.Opacity = 255\<rparr>,
      Name = []\<rparr>"

definition visible_layer_info :: aseprite_layer_info where
  "visible_layer_info =
     \<lparr>aseprite_layer_info.Header =
        \<lparr>aseprite_layer_header.Flags = 1, LayerType = 0, LayerChild = 0,
         DefaultLayerWidthInPixels = 0, DefaultLayerHeightInPixels = 0, BlendMode = 0,
         aseprite_layer_header.Opacity = 255\<rparr>,
      Name = []\<rparr>"

text \<open>A raw cel at offset (\<open>x\<close>, \<open>y\<close>) with \<open>w\<close> by \<open>h\<close> pixels.\<close>

definition cel_at :: "16 word \<Rightarrow> 16 word \<Rightarrow> int \<Rightarrow> int \<Rightarrow> byte list \<Rightarrow> aseprite_layer" where
  "cel_at x y w h bytes =
     \<lparr>aseprite_layer.Header = Some \<lparr>LayerIndex = 0, XPos = x, YPos = y,
         aseprite_cel_header.Opacity = 255, CelType = 0\<rparr>,
      DataWidth = Some w, DataHeight = Some h, Data = Buffer bytes\<rparr>"

definition canvas_header :: "16 word \<Rightarrow> 16 word \<Rightarrow> 16 word \<Rightarrow> aseprite_header" where
  "canvas_header w h depth =
     \<lparr>FileSize = 0, aseprite_header.MagicNumber = 0, aseprite_header.Frames = 1,
      WidthInPixels = w, HeightInPixels = h, ColorDepth = depth, aseprite_header.Flags = 0,
      Speed = 0, TransparentPaletteEntry = 0, NumberOfColors = 0\<rparr>"

text \<open>A 1 by 1 document in 32-bit colour with two layers: layer 0 is hidden, layer 1 is
  visible and holds the pixel (200, 0, 0, 128).\<close>

definition hidden_bottom_file :: aseprite_file where
  "hidden_bottom_file =
     \<lparr>aseprite_file.Header = canvas_header 1 1 32,
      NumFrames = 1,
      aseprite_file.Frames =
        [\<lparr>aseprite_frame.Header = None, aseprite_frame.NumLayers = 2,
          Layers = Some [fresh_layer, cel_at 0 0 1 1 [200, 0, 0, 128]]\<rparr>],
      Palette = \<lparr>aseprite_palette.Header = None, NumColors = None, Colors = None\<rparr>,
      aseprite_file.NumLayers = 2,
      LayerInfo = [Some hidden_layer_info, Some visible_layer_info]\<rparr>"

text \<open>A palette of three colours: red, green and blue at the indices 0, 1 and 2.\<close>

definition rgb_palette :: aseprite_palette where
  "rgb_palette =
     \<lparr>aseprite_palette.Header = None, NumColors = Some 3,
      Colors = Some [Some (AsepriteColorFromR8G8B8A8 255 0 0 255),
                     Some (AsepriteColorFromR8G8B8A8 0 255 0 255),
                     Some (AsepriteColorFromR8G8B8A8 0 0 255 255)]\<rparr>"

text \<open>A 2 by 1 document in indexed colour (transparent index 0) with the palette above
  and one visible layer, whose cel in frame 0 is \<open>cel\<close>.\<close>

definition indexed_file :: "aseprite_layer \<Rightarrow> aseprite_file" where
  "indexed_file cel =
     \<lparr>aseprite_file.Header = canvas_header 2 1 8,
      NumFrames = 1,
      aseprite_file.Frames =
        [\<lparr>aseprite_frame.Header = None, aseprite_frame.NumLayers = 1, Layers = Some [cel]\<rparr>],
      Palette = rgb_palette,
      aseprite_file.NumLayers = 1,
      LayerInfo = [Some visible_layer_info]\<rparr>"

text \<open>A decompressor that always fails.\<close>

definition no_tinfl :: "byte list \<Rightarrow> byte list option" where
  "no_tinfl bytes = None"

text \<open>The state of the parser at offset \<open>pos\<close>, and a document and a frame as
  \<open>AsepriteParseFile\<close> sets them up before the first frame is read.\<close>

definition parser_at :: "nat \<Rightarrow> bool \<Rightarrow> aseprite_parser" where
  "parser_at pos new = \<lparr>At = pos, AvailableLayers = 2, UsesNewPalette = new\<rparr>"

definition blank_frame :: aseprite_frame where
  "blank_frame = \<lparr>aseprite_frame.Header = None, aseprite_frame.NumLayers = 0, Layers = None\<rparr>"

definition blank_file :: aseprite_file where
  "blank_file =
     \<lparr>aseprite_file.Header = canvas_header 1 1 8,
      NumFrames = 1,
      aseprite_file.Frames = [blank_frame],
      Palette = \<lparr>aseprite_palette.Header = None, NumColors = None, Colors = None\<rparr>,
      aseprite_file.NumLayers = 0,
      LayerInfo = [None, None]\<rparr>"

text \<open>The 128 bytes of a file header that declares \<open>frames\<close> frames, and the 16 bytes
  of a frame header that declares \<open>chunks\<close> chunks; all other fields are zero.\<close>

definition file_header_bytes :: "byte \<Rightarrow> byte list" where
  "file_header_bytes frames = replicate 6 0 @ [frames, 0] @ replicate 120 0"

definition frame_header_bytes :: "byte \<Rightarrow> byte list" where
  "frame_header_bytes chunks = replicate 6 0 @ [chunks, 0] @ replicate 8 0"

text \<open>A modern palette chunk (type \<open>0x2019\<close>, 38 bytes) for a table of 2 colours that
  sets the indices 0 and 1, and one (32 bytes) for a table of 2 colours that sets index 1
  only.\<close>

definition palette_chunk_0_1 :: "byte list" where
  "palette_chunk_0_1 =
     [38, 0, 0, 0, 0x19, 0x20,  2, 0, 0, 0,  0, 0, 0, 0,  1, 0, 0, 0] @ replicate 8 0
     @ [0, 0, 10, 20, 30, 255,  0, 0, 40, 50, 60, 255]"

definition palette_chunk_1 :: "byte list" where
  "palette_chunk_1 =
     [32, 0, 0, 0, 0x19, 0x20,  2, 0, 0, 0,  1, 0, 0, 0,  1, 0, 0, 0] @ replicate 8 0
     @ [0, 0, 70, 80, 90, 255]"

text \<open>A legacy palette chunk of type code \<open>ty\<close> (16 bytes) with one packet: start
  index 1, two colours.\<close>

definition legacy_chunk :: "byte \<Rightarrow> byte list" where
  "legacy_chunk ty = [16, 0, 0, 0, ty, 0,  1, 0,  1, 2,  10, 20, 30,  40, 50, 60]"

text \<open>A cel chunk (type \<open>0x2005\<close>, 27 bytes): layer index 1, offset (0, 0), a raw cel
  of 1 by 1 pixel with the byte 5.\<close>

definition cel_chunk :: "byte list" where
  "cel_chunk =
     [27, 0, 0, 0, 0x05, 0x20,  1, 0,  0, 0,  0, 0,  255,  0, 0] @ replicate 7 0
     @ [1, 0,  1, 0,  5]"

text \<open>A chunk of a type code that the importer does not know (\<open>0x7777\<close>, 8 bytes).\<close>

definition unknown_chunk :: "byte list" where
  "unknown_chunk = [8, 0, 0, 0, 0x77, 0x77, 1, 2]"

text \<open>Files of one frame: two modern palette chunks; one legacy chunk of type
  \<open>0x0004\<close>; one legacy chunk of type \<open>0x0011\<close>. And a file of two frames, a modern
  palette chunk in the first and a legacy chunk of type \<open>0x0004\<close> in the second.\<close>

definition two_palettes_file :: "byte list" where
  "two_palettes_file =
     file_header_bytes 1 @ frame_header_bytes 2 @ palette_chunk_0_1 @ palette_chunk_1"

definition legacy_file :: "byte list" where
  "legacy_file = file_header_bytes 1 @ frame_header_bytes 1 @ legacy_chunk 0x04"

definition legacy2_file :: "byte list" where
  "legacy2_file = file_header_bytes 1 @ frame_header_bytes 1 @ legacy_chunk 0x11"

definition modern_then_legacy_file :: "byte list" where
  "modern_then_legacy_file =
     file_header_bytes 2 @ frame_header_bytes 1 @ palette_chunk_1
     @ frame_header_bytes 1 @ legacy_chunk 0x04"

text \<open>The document after the parser has read \<open>palette_chunk_1\<close>, a document that
  knows two layers, the cel that \<open>cel_chunk\<close> decodes to, and the table that the packet
  of \<open>legacy_chunk\<close> fills.\<close>

definition modern_doc :: aseprite_file where
  "modern_doc = blank_file\<lparr>Palette :=
     \<lparr>aseprite_palette.Header =
        Some \<lparr>NewPaletteSize = 2, FirstColorIndexToChange = 1, LastColorIndexToChange = 1\<rparr>,
      NumColors = Some 2,
      Colors = Some [None, Some (AsepriteColorFromR8G8B8A8 70 80 90 255)]\<rparr>\<rparr>"

definition two_layer_doc :: aseprite_file where
  "two_layer_doc = blank_file\<lparr>aseprite_file.NumLayers := 2\<rparr>"

definition decoded_cel :: aseprite_layer where
  "decoded_cel =
     \<lparr>aseprite_layer.Header = Some \<lparr>LayerIndex = 1, XPos = 0, YPos = 0,
         aseprite_cel_header.Opacity = 255, CelType = 0\<rparr>,
      DataWidth = Some 1, DataHeight = Some 1, Data = Buffer [5]\<rparr>"

definition legacy_colors :: "aseprite_color option list" where
  "legacy_colors = (replicate 256 None)
     [1 := Some (AsepriteColorFromR8G8B8A8 10 20 30 255),
      2 := Some (AsepriteColorFromR8G8B8A8 40 50 60 255)]"

section \<open>Facts about the rounding\<close>

lemma bit_length_bounds: "0 < n \<Longrightarrow> 2 ^ (bit_length n - 1) \<le> n \<and> n < 2 ^ bit_length n"
proof (induction n rule: bit_length.induct)
  case (1 n)
  show ?case
  proof (cases "n div 2 = 0")
    case True
    with \<open>0 < n\<close> have "n = 1" by presburger
    then show ?thesis by (simp add: bit_length.simps)
  next
    case False
    with \<open>0 < n\<close> have pos: "0 < n div 2" by presburger
    from "1.IH" [OF _ pos] \<open>0 < n\<close>
    have ih: "2 ^ (bit_length (n div 2) - 1) \<le> n div 2" "n div 2 < 2 ^ bit_length (n div 2)"
      by simp_all
    have bl: "bit_length n = Suc (bit_length (n div 2))"
      using \<open>0 < n\<close> by (subst bit_length.simps) simp
    have pos': "0 < bit_length (n div 2)"
      using pos by (subst bit_length.simps) simp
    have "(2::int) ^ (bit_length n - 1) = 2 * 2 ^ (bit_length (n div 2) - 1)"
      using pos' bl by (cases "bit_length (n div 2)") simp_all
    moreover have "2 * (n div 2) \<le> n" by presburger
    moreover have "n < 2 * (n div 2) + 2" by presburger
    ultimately show ?thesis using ih bl by simp
  qed
qed

lemma round_even_zero: "round_even y = 0 \<Longrightarrow> \<bar>y\<bar> \<le> 1 / 2"
  by (auto simp add: round_even_def Let_def split: if_splits) linarith+

lemma float_round_zero_iff: "float_round x = 0 \<longleftrightarrow> x = 0"
proof
  assume "x = 0"
  then show "float_round x = 0" by (simp add: float_round_def float_round_digits_def)
next
  assume z: "float_round x = 0"
  define n where "n = \<lfloor>\<bar>x\<bar> * 2 ^ 149\<rfloor>"
  show "x = 0"
  proof (cases "n < 2 ^ 23 \<or> 2 ^ 277 \<le> n")
    case True
    with z show ?thesis by (simp add: float_round_def float_round_digits_def n_def)
  next
    case False
    then have n23: "2 ^ 23 \<le> n" by simp
    have "(0::int) < 2 ^ 23" by simp
    with n23 have npos: "0 < n" by linarith
    define k where "k = bit_length n"
    define u :: real where "u = 2 ^ (k - 24) / 2 ^ 149"
    have upos: "0 < u" by (simp add: u_def)
    have fr: "float_round x =
        (if n < 2 ^ 23 \<or> 2 ^ 277 \<le> n then x else of_int (round_even (x / u)) * u)"
      unfolding float_round_def float_round_digits_def Let_def u_def k_def n_def by (rule refl)
    from False have "float_round x = of_int (round_even (x / u)) * u"
      unfolding fr by (rule if_not_P)
    with z have "of_int (round_even (x / u)) * u = 0" by (simp only:)
    with upos have "round_even (x / u) = 0" by simp
    then have small: "\<bar>x / u\<bar> \<le> 1 / 2" by (rule round_even_zero)
    from bit_length_bounds [OF npos] have lo: "2 ^ (k - 1) \<le> n" by (simp add: k_def)
    have "(2::int) ^ (k - 24) \<le> 2 ^ (k - 1)" by (rule power_increasing) simp_all
    with lo have "2 ^ (k - 24) \<le> n" by linarith
    then have "(2::real) ^ (k - 24) \<le> of_int n" by (metis of_int_le_iff of_int_numeral of_int_power)
    also have "\<dots> \<le> \<bar>x\<bar> * 2 ^ 149" by (simp add: n_def)
    finally have "u \<le> \<bar>x\<bar>" by (simp add: u_def field_simps)
    with upos have "1 \<le> \<bar>x / u\<bar>" by (simp add: field_simps)
    with small show ?thesis by linarith
  qed
qed

lemma float_round_0: "float_round 0 = 0"
  by (simp add: float_round_zero_iff)

lemma bit_length_0: "bit_length 0 = 0"
  by (simp add: bit_length.simps)

lemma bit_length_1: "bit_length 1 = 1"
  by (simp add: bit_length.simps)

lemma bit_length_numeral: "bit_length (numeral k) = Suc (bit_length (numeral k div 2))"
  by (subst bit_length.simps) simp

lemma float_round_digits_0: "float_round_digits 0 x = x"
  by (simp add: float_round_digits_def)

lemma float_round_digits_1: "float_round_digits 1 x = x"
  by (simp add: float_round_digits_def)

lemma float_round_digits_numeral:
  "float_round_digits (numeral k) x =
     (if numeral k < (2::int) ^ 23 \<or> (2::int) ^ 277 \<le> numeral k then x
      else let u = 2 ^ (bit_length (numeral k) - 24) / 2 ^ 149
           in of_int (round_even (x / u)) * u)"
  by (rule float_round_digits_def)

lemma float_round_numeral:
  "float_round 0 = 0"
  "float_round 1 = float_round_digits \<lfloor>\<bar>1 :: real\<bar> * 2 ^ 149\<rfloor> 1"
  "float_round (numeral a)
     = float_round_digits \<lfloor>\<bar>numeral a :: real\<bar> * 2 ^ 149\<rfloor> (numeral a)"
  "float_round (1 / numeral b)
     = float_round_digits \<lfloor>\<bar>1 / numeral b :: real\<bar> * 2 ^ 149\<rfloor> (1 / numeral b)"
  "float_round (numeral a / numeral b)
     = float_round_digits \<lfloor>\<bar>numeral a / numeral b :: real\<bar> * 2 ^ 149\<rfloor>
         (numeral a / numeral b)"
  "float_round (- 1) = float_round_digits \<lfloor>\<bar>- 1 :: real\<bar> * 2 ^ 149\<rfloor> (- 1)"
  "float_round (- numeral a)
     = float_round_digits \<lfloor>\<bar>- numeral a :: real\<bar> * 2 ^ 149\<rfloor> (- numeral a)"
  "float_round (- (1 / numeral b))
     = float_round_digits \<lfloor>\<bar>- (1 / numeral b) :: real\<bar> * 2 ^ 149\<rfloor> (- (1 / numeral b))"
  "float_round (- (numeral a / numeral b))
     = float_round_digits \<lfloor>\<bar>- (numeral a / numeral b) :: real\<bar> * 2 ^ 149\<rfloor>
         (- (numeral a / numeral b))"
  by (simp_all only: float_round_0) (rule float_round_def)+

lemmas float_simps =
  float_round_numeral float_round_digits_0 float_round_digits_1 float_round_digits_numeral
  round_even_def bit_length_0 bit_length_1 bit_length_numeral
  fadd_def fsub_def fmul_def fdiv_def u8_over_255_def u8_to_float_def float_to_u8_def Let_def

lemma float_round_1: "float_round 1 = 1"
  by (simp add: float_simps)

lemma round_even_error: "\<bar>of_int (round_even y) - y\<bar> \<le> 1 / 2"
  by (auto simp add: round_even_def Let_def split: if_splits)

lemma float_round_error: "\<bar>float_round x - x\<bar> \<le> \<bar>x\<bar> / 2 ^ 24"
proof -
  define n where "n = \<lfloor>\<bar>x\<bar> * 2 ^ 149\<rfloor>"
  show ?thesis
  proof (cases "n < 2 ^ 23 \<or> 2 ^ 277 \<le> n")
    case True
    then have "float_round x = x"
      unfolding float_round_def float_round_digits_def Let_def n_def by (rule if_P)
    then show ?thesis by simp
  next
    case False
    then have n23: "2 ^ 23 \<le> n" by simp
    have "(0::int) < 2 ^ 23" by simp
    with n23 have npos: "0 < n" by linarith
    define k where "k = bit_length n"
    define u :: real where "u = 2 ^ (k - 24) / 2 ^ 149"
    have upos: "0 < u" by (simp add: u_def)
    have fr: "float_round x =
        (if n < 2 ^ 23 \<or> 2 ^ 277 \<le> n then x else of_int (round_even (x / u)) * u)"
      unfolding float_round_def float_round_digits_def Let_def u_def k_def n_def by (rule refl)
    from False have fr': "float_round x = of_int (round_even (x / u)) * u"
      unfolding fr by (rule if_not_P)
    from bit_length_bounds [OF npos]
    have lo: "2 ^ (k - 1) \<le> n" and hi: "n < 2 ^ k" by (simp_all add: k_def)
    have k24: "24 \<le> k"
    proof (rule ccontr)
      assume "\<not> 24 \<le> k"
      then have "k \<le> 23" by simp
      then have "(2::int) ^ k \<le> 2 ^ 23" by (rule power_increasing) simp
      with hi n23 show False by linarith
    qed
    then have "k - 1 = (k - 24) + 23" by simp
    then have "(2::int) ^ (k - 1) = 2 ^ (k - 24) * 2 ^ 23"
      by (simp only: power_add)
    with lo have "2 ^ (k - 24) * 2 ^ 23 \<le> n" by simp
    then have "real_of_int (2 ^ (k - 24) * 2 ^ 23) \<le> of_int n"
      by (simp only: of_int_le_iff)
    then have "(2::real) ^ (k - 24) * 2 ^ 23 \<le> of_int n" by simp
    also have "\<dots> \<le> \<bar>x\<bar> * 2 ^ 149" by (simp add: n_def)
    finally have ux: "u * 2 ^ 23 \<le> \<bar>x\<bar>" by (simp add: u_def field_simps)
    have "float_round x - x = (of_int (round_even (x / u)) - x / u) * u"
      using upos by (simp add: fr' field_simps)
    then have "\<bar>float_round x - x\<bar> = \<bar>of_int (round_even (x / u)) - x / u\<bar> * u"
      using upos by (simp only: abs_mult abs_of_pos)
    also have "\<dots> \<le> 1 / 2 * u"
      using upos round_even_error [of "x / u"] by (intro mult_right_mono) simp_all
    also have "\<dots> \<le> \<bar>x\<bar> / 2 ^ 24" using ux by simp
    finally show ?thesis .
  qed
qed

lemma fsub_zero_iff: "fsub a b = 0 \<longleftrightarrow> a = b"
  by (simp add: fsub_def float_round_zero_iff)

lemma fmul_zero_left: "fmul 0 b = 0"
  by (simp add: fmul_def float_round_0)

lemma fdiv_nonzero: "b \<noteq> 0 \<Longrightarrow> fdiv a b = Some (float_round (a / b))"
  by (simp add: fdiv_def)

text \<open>Multiplying by the rounded reciprocal is not dividing, but it is close to it.\<close>

lemma fmul_reciprocal_error:
  assumes "a \<noteq> 0"
  shows "\<bar>fmul X (float_round (1 / a)) - X / a\<bar> \<le> \<bar>X / a\<bar> / 2 ^ 22"
proof -
  define rcp where "rcp = float_round (1 / a)"
  have "\<bar>rcp - 1 / a\<bar> \<le> \<bar>1 / a\<bar> / 2 ^ 24"
    unfolding rcp_def by (rule float_round_error)
  then have "\<bar>X\<bar> * \<bar>rcp - 1 / a\<bar> \<le> \<bar>X\<bar> * (\<bar>1 / a\<bar> / 2 ^ 24)"
    by (intro mult_left_mono) simp_all
  then have e1: "\<bar>X * rcp - X / a\<bar> \<le> \<bar>X / a\<bar> / 2 ^ 24"
    by (simp add: abs_mult [symmetric] right_diff_distrib abs_divide)
  have e2: "\<bar>fmul X rcp - X * rcp\<bar> \<le> \<bar>X * rcp\<bar> / 2 ^ 24"
    unfolding fmul_def by (rule float_round_error)
  have "\<bar>X * rcp\<bar> \<le> \<bar>X / a\<bar> + \<bar>X / a\<bar> / 2 ^ 24" using e1 by linarith
  then have "\<bar>X * rcp\<bar> / 2 ^ 24 \<le> (\<bar>X / a\<bar> + \<bar>X / a\<bar> / 2 ^ 24) / 2 ^ 24"
    by (simp add: divide_right_mono)
  with e1 e2 have "\<bar>fmul X rcp - X / a\<bar>
      \<le> \<bar>X / a\<bar> / 2 ^ 24 + (\<bar>X / a\<bar> + \<bar>X / a\<bar> / 2 ^ 24) / 2 ^ 24"
    by linarith
  also have "\<dots> \<le> \<bar>X / a\<bar> / 2 ^ 22"
  proof -
    define q where "q = \<bar>X / a\<bar>"
    have "0 \<le> q" by (simp add: q_def)
    then have "q / 2 ^ 24 + (q + q / 2 ^ 24) / 2 ^ 24 \<le> q / 2 ^ 22" by simp
    then show ?thesis by (simp only: q_def)
  qed
  finally show ?thesis by (simp add: rcp_def)
qed

section \<open>Facts for unfolding\<close>

lemmas blend_mode_defs =
  AsepriteBlendMode_Normal_def AsepriteBlendMode_Multiply_def AsepriteBlendMode_Screen_def
  AsepriteBlendMode_Overlay_def AsepriteBlendMode_Darken_def AsepriteBlendMode_Lighten_def
  AsepriteBlendMode_ColorDodge_def AsepriteBlendMode_ColorBurn_def
  AsepriteBlendMode_HardLight_def AsepriteBlendMode_SoftLight_def
  AsepriteBlendMode_Difference_def AsepriteBlendMode_Exclusion_def

lemmas sizeof_defs =
  sizeof_header_def sizeof_frame_header_def sizeof_chunk_header_def sizeof_palette_header_def
  sizeof_palette_entry_def sizeof_layer_header_def sizeof_cel_header_def

lemmas chunk_type_defs =
  AsepriteChunk_OldPalette_def AsepriteChunk_OldPalette2_def AsepriteChunk_Layer_def
  AsepriteChunk_Cel_def AsepriteChunk_Mask_def AsepriteChunk_Path_def
  AsepriteChunk_FrameTags_def AsepriteChunk_Palette_def AsepriteChunk_UserData_def

lemmas compositor_simps =
  AsepriteGetEntireFrameRGBA_def layer_loop.simps draw_layer_def Y_loop.simps X_loop.simps
  layer_info_at_def layer_at_def source_color_def cel_byte_def read_pixel_def write_pixel_def
  palette_color_def layer_opacity_def composite_pixel_def AsepriteCombineColors_def
  blend_channel_def blend_mode_defs fdiv_def AsepriteColorFromRGBA8_def AsepriteColorFromRGBA_def
  AsepriteColorFromR8G8B8A8_def float_to_u8_def u8_to_float_def RGBA8_def zero_color_def
  AsepriteLayerFlags_Visible_def

lemmas example_defs =
  hidden_bottom_file_def canvas_header_def hidden_layer_info_def visible_layer_info_def
  cel_at_def fresh_layer_def rgb_palette_def indexed_file_def

section \<open>Properties of the blend\<close>

text \<open>Every division of the blend has a divisor that its guard keeps away from zero:
  a difference \<open>1 - s\<close> rounds to zero only when it is zero.\<close>

lemma blend_channel_defined: "\<exists>b. blend_channel m s d = Some b"
  by (simp add: blend_channel_def fdiv_def fsub_zero_iff)

lemma zero_color_eq: "AsepriteColorFromRGBA 0 0 0 0 = zero_color"
  by (simp add: AsepriteColorFromRGBA_def zero_color_def float_to_u8_def fmul_zero_left)

lemma AsepriteCombineColors_eq:
  assumes "blend_channel m (R Src) (R Dst) = Some bR"
    and "blend_channel m (G Src) (G Dst) = Some bG"
    and "blend_channel m (B Src) (B Dst) = Some bB"
    and "OutAlpha = fadd (A Src) (fmul (A Dst) (fsub 1 (A Src)))"
  shows "AsepriteCombineColors Src Dst m =
    Some (if OutAlpha = 0 then zero_color
          else AsepriteColorFromRGBA
            (fmul (fadd (fmul bR (A Src)) (fmul (fmul (R Dst) (A Dst)) (fsub 1 (A Src))))
               (float_round (1 / OutAlpha)))
            (fmul (fadd (fmul bG (A Src)) (fmul (fmul (G Dst) (A Dst)) (fsub 1 (A Src))))
               (float_round (1 / OutAlpha)))
            (fmul (fadd (fmul bB (A Src)) (fmul (fmul (B Dst) (A Dst)) (fsub 1 (A Src))))
               (float_round (1 / OutAlpha)))
            OutAlpha)"
  using assms by (simp add: AsepriteCombineColors_def zero_color_eq fdiv_nonzero Let_def)

lemma AsepriteCombineColors_defined: "\<exists>c. AsepriteCombineColors Src Dst m = Some c"
proof -
  obtain bR bG bB where "blend_channel m (R Src) (R Dst) = Some bR"
    "blend_channel m (G Src) (G Dst) = Some bG" "blend_channel m (B Src) (B Dst) = Some bB"
    using blend_channel_defined by metis
  from AsepriteCombineColors_eq [OF this refl] show ?thesis by blast
qed

text \<open>
  Claim C2, as the code has it. For every source colour, destination colour and blend
  mode, \<open>AsepriteCombineColors\<close> returns a colour (no division by zero on the way).
  Its alpha is \<open>srcA + destA * (1 - srcA)\<close> computed in single precision, each
  operation rounded. When that alpha is 0 the result is the colour with every channel
  zero, float and 8-bit. Otherwise its red, green and blue are the rounded product of
  the numerator \<open>blendC * srcA + destC * destA * (1 - srcA)\<close>, computed in single
  precision, with the rounded reciprocal of the alpha, where \<open>blendC\<close> is the value of
  the mode's blend expression on the source and destination channel; a channel is
  within the fraction \<open>2 ^ -22\<close> of the quotient of that numerator by the alpha, and
  the 8-bit channels are the float channels times 255, truncated.
\<close>

theorem AsepriteCombineColors_rounded_composite:
  "\<exists>bR bG bB res.
     blend_channel m (R Src) (R Dst) = Some bR \<and>
     blend_channel m (G Src) (G Dst) = Some bG \<and>
     blend_channel m (B Src) (B Dst) = Some bB \<and>
     AsepriteCombineColors Src Dst m = Some res \<and>
     A res = fadd (A Src) (fmul (A Dst) (fsub 1 (A Src))) \<and>
     (A res = 0 \<longrightarrow> res = zero_color) \<and>
     (A res \<noteq> 0 \<longrightarrow>
        res = AsepriteColorFromRGBA (R res) (G res) (B res) (A res) \<and>
        R res = fmul (fadd (fmul bR (A Src)) (fmul (fmul (R Dst) (A Dst)) (fsub 1 (A Src))))
                  (float_round (1 / A res)) \<and>
        G res = fmul (fadd (fmul bG (A Src)) (fmul (fmul (G Dst) (A Dst)) (fsub 1 (A Src))))
                  (float_round (1 / A res)) \<and>
        B res = fmul (fadd (fmul bB (A Src)) (fmul (fmul (B Dst) (A Dst)) (fsub 1 (A Src))))
                  (float_round (1 / A res)) \<and>
        \<bar>R res - fadd (fmul bR (A Src)) (fmul (fmul (R Dst) (A Dst)) (fsub 1 (A Src))) / A res\<bar>
          \<le> \<bar>fadd (fmul bR (A Src)) (fmul (fmul (R Dst) (A Dst)) (fsub 1 (A Src))) / A res\<bar>
             / 2 ^ 22 \<and>
        \<bar>G res - fadd (fmul bG (A Src)) (fmul (fmul (G Dst) (A Dst)) (fsub 1 (A Src))) / A res\<bar>
          \<le> \<bar>fadd (fmul bG (A Src)) (fmul (fmul (G Dst) (A Dst)) (fsub 1 (A Src))) / A res\<bar>
             / 2 ^ 22 \<and>
        \<bar>B res - fadd (fmul bB (A Src)) (fmul (fmul (B Dst) (A Dst)) (fsub 1 (A Src))) / A res\<bar>
          \<le> \<bar>fadd (fmul bB (A Src)) (fmul (fmul (B Dst) (A Dst)) (fsub 1 (A Src))) / A res\<bar>
             / 2 ^ 22)"
proof -
  obtain bR bG bB where b: "blend_channel m (R Src) (R Dst) = Some bR"
    "blend_channel m (G Src) (G Dst) = Some bG" "blend_channel m (B Src) (B Dst) = Some bB"
    using blend_channel_defined by metis
  define OutAlpha where "OutAlpha = fadd (A Src) (fmul (A Dst) (fsub 1 (A Src)))"
  note eq = AsepriteCombineColors_eq [OF b OutAlpha_def]
  show ?thesis
  proof (cases "OutAlpha = 0")
    case True
    with eq have "AsepriteCombineColors Src Dst m = Some zero_color" by simp
    with b True show ?thesis by (simp add: zero_color_def OutAlpha_def)
  next
    case False
    define NR where "NR = fadd (fmul bR (A Src)) (fmul (fmul (R Dst) (A Dst)) (fsub 1 (A Src)))"
    define NG where "NG = fadd (fmul bG (A Src)) (fmul (fmul (G Dst) (A Dst)) (fsub 1 (A Src)))"
    define NB where "NB = fadd (fmul bB (A Src)) (fmul (fmul (B Dst) (A Dst)) (fsub 1 (A Src)))"
    define rcp where "rcp = float_round (1 / OutAlpha)"
    define res where "res = AsepriteColorFromRGBA (fmul NR rcp) (fmul NG rcp) (fmul NB rcp) OutAlpha"
    have sel: "R res = fmul NR rcp" "G res = fmul NG rcp" "B res = fmul NB rcp" "A res = OutAlpha"
      by (simp_all add: res_def AsepriteColorFromRGBA_def)
    from False eq have c: "AsepriteCombineColors Src Dst m = Some res"
      by (simp add: res_def NR_def NG_def NB_def rcp_def)
    have again: "res = AsepriteColorFromRGBA (R res) (G res) (B res) (A res)"
      by (simp only: sel) (rule res_def)
    have err: "\<bar>fmul N rcp - N / OutAlpha\<bar> \<le> \<bar>N / OutAlpha\<bar> / 2 ^ 22" for N
      unfolding rcp_def using False by (rule fmul_reciprocal_error)
    have p1: "A res = fadd (A Src) (fmul (A Dst) (fsub 1 (A Src)))"
      by (simp only: sel OutAlpha_def)
    have p2: "A res \<noteq> 0" using False by (simp add: sel)
    have cR: "R res = fmul NR (float_round (1 / A res))"
      and cG: "G res = fmul NG (float_round (1 / A res))"
      and cB: "B res = fmul NB (float_round (1 / A res))"
      by (simp_all only: sel rcp_def)
    have eR: "\<bar>R res - NR / A res\<bar> \<le> \<bar>NR / A res\<bar> / 2 ^ 22"
      and eG: "\<bar>G res - NG / A res\<bar> \<le> \<bar>NG / A res\<bar> / 2 ^ 22"
      and eB: "\<bar>B res - NB / A res\<bar> \<le> \<bar>NB / A res\<bar> / 2 ^ 22"
      unfolding sel by (rule err)+
    from b c p1 p2 again cR cG cB eR eG eB show ?thesis
      unfolding NR_def NG_def NB_def by blast
  qed
qed

text \<open>Opaque red multiplied onto opaque green is opaque black; two colours of alpha 0
  combine to the all-zero colour.\<close>

theorem AsepriteCombineColors_rounded_composite_witness:
  "(\<exists>res. AsepriteCombineColors (AsepriteColorFromRGBA8 (255, 0, 0, 255))
            (AsepriteColorFromRGBA8 (0, 255, 0, 255)) AsepriteBlendMode_Multiply = Some res
          \<and> A res = 1 \<and> R res = 0 \<and> G res = 0 \<and> B res = 0 \<and> RGBA8 res = (0, 0, 0, 255))
   \<and> (\<exists>res. AsepriteCombineColors (AsepriteColorFromRGBA8 (7, 8, 9, 0))
            (AsepriteColorFromRGBA8 (1, 2, 3, 0)) AsepriteBlendMode_Screen = Some res
          \<and> res = zero_color)"
proof -
  have m: "AsepriteCombineColors (AsepriteColorFromRGBA8 (255, 0, 0, 255))
      (AsepriteColorFromRGBA8 (0, 255, 0, 255)) AsepriteBlendMode_Multiply
      = Some \<lparr>R8 = 0, G8 = 0, B8 = 0, A8 = 255, R = 0, G = 0, B = 0, A = 1\<rparr>"
    by (simp add: AsepriteCombineColors_def AsepriteColorFromRGBA8_def AsepriteColorFromRGBA_def
        blend_channel_def blend_mode_defs float_simps)
  have s: "A (AsepriteColorFromRGBA8 (7, 8, 9, 0)) = 0" "A (AsepriteColorFromRGBA8 (1, 2, 3, 0)) = 0"
    by (simp_all add: AsepriteColorFromRGBA8_def float_simps)
  have z: "fadd 0 (fmul 0 (fsub 1 0)) = 0"
    by (simp add: float_simps)
  show ?thesis
    using AsepriteCombineColors_rounded_composite [of AsepriteBlendMode_Multiply
            "AsepriteColorFromRGBA8 (255, 0, 0, 255)" "AsepriteColorFromRGBA8 (0, 255, 0, 255)"]
          AsepriteCombineColors_rounded_composite [of AsepriteBlendMode_Screen
            "AsepriteColorFromRGBA8 (7, 8, 9, 0)" "AsepriteColorFromRGBA8 (1, 2, 3, 0)"]
    by (auto simp add: m s z RGBA8_def)
qed

text \<open>
  Claim C2 as stated fails: the product with the rounded reciprocal is not the
  quotient. White of alpha 64 over white of alpha 64 in the normal mode has the
  numerator 7364689 / 16777216 and the same alpha, so the quotient is 1, in single
  precision as in exact arithmetic, and the result would be white (255, 255, 255, 111).
  The code multiplies by the rounded reciprocal of the alpha and gets the channel
  \<open>1 - 2 ^ -24\<close>: the compositor writes the bytes (254, 254, 254, 111). Its alpha is the
  rounded one, not the exact value of \<open>srcA + destA * (1 - srcA)\<close>.
\<close>

theorem AsepriteCombineColors_quotient_counterexample:
  "A (AsepriteColorFromRGBA8 (255, 255, 255, 64)) = 8421505 / 33554432
   \<and> R (AsepriteColorFromRGBA8 (255, 255, 255, 64)) = 1
   \<and> blend_channel AsepriteBlendMode_Normal 1 1 = Some 1
   \<and> AsepriteCombineColors (AsepriteColorFromRGBA8 (255, 255, 255, 64))
        (AsepriteColorFromRGBA8 (255, 255, 255, 64)) AsepriteBlendMode_Normal
       = Some \<lparr>R8 = 254, G8 = 254, B8 = 254, A8 = 111,
           R = 16777215 / 16777216, G = 16777215 / 16777216, B = 16777215 / 16777216,
           A = 7364689 / 16777216\<rparr>
   \<and> fadd (fmul 1 (8421505 / 33554432))
        (fmul (fmul 1 (8421505 / 33554432)) (fsub 1 (8421505 / 33554432)))
       = 7364689 / 16777216
   \<and> fdiv (7364689 / 16777216) (7364689 / 16777216) = Some 1
   \<and> (1 * (8421505 / 33554432) + 1 * (8421505 / 33554432) * (1 - 8421505 / 33554432))
       / (8421505 / 33554432 + 8421505 / 33554432 * (1 - 8421505 / 33554432)) = (1::real)
   \<and> 8421505 / 33554432 + 8421505 / 33554432 * (1 - 8421505 / 33554432)
       \<noteq> (7364689 / 16777216 :: real)
   \<and> AsepriteColorFromRGBA 1 1 1 (7364689 / 16777216)
       = \<lparr>R8 = 255, G8 = 255, B8 = 255, A8 = 111, R = 1, G = 1, B = 1,
           A = 7364689 / 16777216\<rparr>
   \<and> composite_pixel 1 (255, 255, 255, 64) (AsepriteColorFromRGBA8 (255, 255, 255, 64))
        AsepriteBlendMode_Normal = Some (254, 254, 254, 111)"
  by (simp add: composite_pixel_def AsepriteCombineColors_def AsepriteColorFromRGBA8_def
      AsepriteColorFromRGBA_def blend_channel_def blend_mode_defs RGBA8_def float_simps)

section \<open>Properties of the compositor\<close>

text \<open>
  Claim C1, as the code has it. For every pixel that a visible layer draws: if the
  layer has index 0, or the four bytes of the destination pixel are all zero, the bytes
  of the source colour overwrite the destination. Otherwise a source whose red byte is
  not zero is combined over the destination with the blend mode of the layer, and a
  source whose four bytes are all zero leaves the destination as it is. (Nothing is
  said here about a source whose red byte is zero and whose other bytes are not.)
\<close>

theorem composite_pixel_overwrite_or_blend:
  "(li = 0 \<or> Dest = (0, 0, 0, 0) \<longrightarrow> composite_pixel li Dest Src m = Some (RGBA8 Src))
   \<and> (li \<noteq> 0 \<and> Dest \<noteq> (0, 0, 0, 0) \<and> R8 Src \<noteq> 0 \<longrightarrow>
        (\<exists>c. AsepriteCombineColors Src (AsepriteColorFromRGBA8 Dest) m = Some c
           \<and> composite_pixel li Dest Src m = Some (RGBA8 c)))
   \<and> (li \<noteq> 0 \<and> Dest \<noteq> (0, 0, 0, 0) \<and> RGBA8 Src = (0, 0, 0, 0) \<longrightarrow>
        composite_pixel li Dest Src m = Some Dest)"
  using AsepriteCombineColors_defined [of Src "AsepriteColorFromRGBA8 Dest" m]
  by (auto simp add: composite_pixel_def RGBA8_def)

theorem composite_pixel_overwrite_or_blend_witness:
  "composite_pixel 0 (9, 9, 9, 255) (AsepriteColorFromRGBA8 (200, 0, 0, 128))
       AsepriteBlendMode_Normal = Some (200, 0, 0, 128)
   \<and> composite_pixel 1 (9, 9, 9, 255) (AsepriteColorFromRGBA8 (200, 0, 0, 128))
       AsepriteBlendMode_Normal = Some (104, 4, 4, 255)
   \<and> composite_pixel 1 (9, 9, 9, 255) zero_color AsepriteBlendMode_Normal = Some (9, 9, 9, 255)"
proof -
  have blended: "map_option RGBA8
      (AsepriteCombineColors (AsepriteColorFromRGBA8 (200, 0, 0, 128))
         (AsepriteColorFromRGBA8 (9, 9, 9, 255)) AsepriteBlendMode_Normal)
      = Some (104, 4, 4, 255)"
    by (simp add: AsepriteCombineColors_def blend_channel_def blend_mode_defs
        AsepriteColorFromRGBA8_def AsepriteColorFromRGBA_def RGBA8_def float_simps)
  have bytes: "RGBA8 (AsepriteColorFromRGBA8 (200, 0, 0, 128)) = (200, 0, 0, 128)"
    "R8 (AsepriteColorFromRGBA8 (200, 0, 0, 128)) = 200" "RGBA8 zero_color = (0, 0, 0, 0)"
    by (simp_all add: AsepriteColorFromRGBA8_def RGBA8_def zero_color_def)
  show ?thesis
    using composite_pixel_overwrite_or_blend [of 0 "(9, 9, 9, 255)"
            "AsepriteColorFromRGBA8 (200, 0, 0, 128)" AsepriteBlendMode_Normal]
          composite_pixel_overwrite_or_blend [of 1 "(9, 9, 9, 255)"
            "AsepriteColorFromRGBA8 (200, 0, 0, 128)" AsepriteBlendMode_Normal]
          composite_pixel_overwrite_or_blend [of 1 "(9, 9, 9, 255)" zero_color
            AsepriteBlendMode_Normal]
          blended
    by (auto simp add: bytes)
qed

text \<open>
  Claim C1 as stated fails twice. In \<open>hidden_bottom_file\<close> layer 0 is not visible, so
  layer 1 is the bottommost visible layer; drawn onto the destination pixel
  (9, 9, 9, 255) its pixel (200, 0, 0, 128) is blended, not copied. And an opaque green
  source (0, 255, 0, 255), which the normal blend would put in place of the destination,
  leaves the destination (9, 9, 9, 255) of a layer above the bottom untouched, because
  its red byte is zero.
\<close>

theorem composite_pixel_claim_counterexample:
  "layer_info_at hidden_bottom_file 0 = Some hidden_layer_info
   \<and> aseprite_layer_header.Flags (aseprite_layer_info.Header hidden_layer_info)
        AND AsepriteLayerFlags_Visible = 0
   \<and> AsepriteGetEntireFrameRGBA hidden_bottom_file 0 [9, 9, 9, 255] 1 1 0 0
        = Inr [104, 4, 4, 255]
   \<and> A8 (AsepriteColorFromRGBA8 (0, 255, 0, 255)) = 255
   \<and> AsepriteCombineColors (AsepriteColorFromRGBA8 (0, 255, 0, 255))
        (AsepriteColorFromRGBA8 (9, 9, 9, 255)) AsepriteBlendMode_Normal
       = Some (AsepriteColorFromRGBA8 (0, 255, 0, 255))
   \<and> composite_pixel 1 (9, 9, 9, 255) (AsepriteColorFromRGBA8 (0, 255, 0, 255))
        AsepriteBlendMode_Normal = Some (9, 9, 9, 255)"
  by (simp add: example_defs compositor_simps float_simps)



text \<open>
  Claim C9. A frame number at or above the frame count of the document ends the call
  with \<open>FrameIndexOutOfRange\<close>, and no destination buffer comes back; a frame number
  below the frame count never gives that error.
\<close>

theorem AsepriteGetEntireFrameRGBA_frame_index:
  "(NumFrames File \<le> FrameNumber \<longrightarrow>
      AsepriteGetEntireFrameRGBA File FrameNumber tex w h x y = Inl FrameIndexOutOfRange)
   \<and> (FrameNumber < NumFrames File \<longrightarrow>
      AsepriteGetEntireFrameRGBA File FrameNumber tex w h x y \<noteq> Inl FrameIndexOutOfRange)"
  by (auto simp add: AsepriteGetEntireFrameRGBA_def split: option.splits)

theorem AsepriteGetEntireFrameRGBA_frame_index_witness:
  "NumFrames hidden_bottom_file = 1
   \<and> AsepriteGetEntireFrameRGBA hidden_bottom_file 1 [9, 9, 9, 255] 1 1 0 0
       = Inl FrameIndexOutOfRange
   \<and> AsepriteGetEntireFrameRGBA hidden_bottom_file 0 [9, 9, 9, 255] 1 1 0 0
       \<noteq> Inl FrameIndexOutOfRange"
  using AsepriteGetEntireFrameRGBA_frame_index [of hidden_bottom_file 1 "[9, 9, 9, 255]" 1 1 0 0]
        AsepriteGetEntireFrameRGBA_frame_index [of hidden_bottom_file 0 "[9, 9, 9, 255]" 1 1 0 0]
  by (simp add: hidden_bottom_file_def)

section \<open>Properties of the parser\<close>

subsection \<open>Steps, runs and files\<close>

lemma old_palette_colors_length:
  "old_palette_colors d e i c tab = Some (c', tab') \<Longrightarrow> length tab' = length tab"
proof (induction d e i c tab rule: old_palette_colors.induct)
  case (1 d End ColorIndex ChunkData tab)
  then show ?case
    by (subst (asm) (2) old_palette_colors.simps)
       (auto split: if_splits Option.bind_splits)
qed

lemma old_palette_packets_length:
  "old_palette_packets d n i c tab = Some tab' \<Longrightarrow> length tab' = length tab"
proof (induction d n i c tab rule: old_palette_packets.induct)
  case (1 d Packets PacketIndex ChunkData tab)
  then show ?case
    by (subst (asm) (2) old_palette_packets.simps)
       (auto simp add: old_palette_packet_def Let_def
             split: if_splits option.splits Option.bind_splits dest: old_palette_colors_length)
qed

lemma AsepriteParseOldPalette_table:
  assumes "AsepriteParseOldPalette d File c = Some File'"
  shows "\<exists>tab. File' = File\<lparr>Palette := (Palette File)\<lparr>Colors := Some tab\<rparr>\<rparr> \<and> length tab = 256"
proof -
  from assms obtain n tab where
    tab: "old_palette_packets d n 0 (c + 2) (replicate 256 None) = Some tab"
    and File': "File' = File\<lparr>Palette := (Palette File)\<lparr>Colors := Some tab\<rparr>\<rparr>"
    by (auto simp add: AsepriteParseOldPalette_def split: Option.bind_splits)
  from old_palette_packets_length [OF tab] have "length tab = 256" by simp
  with File' show ?thesis by blast
qed

lemma AsepriteParseLayer_frame:
  assumes "AsepriteParseLayer d File P c = Some (File', P')"
  shows "Palette File' = Palette File \<and> At P' = At P \<and> UsesNewPalette P' = UsesNewPalette P
         \<and> aseprite_file.Frames File' = aseprite_file.Frames File"
  using assms
  by (auto simp add: AsepriteParseLayer_def Let_def split: if_splits Option.bind_splits)

lemma AsepriteParseChunk_header:
  assumes "read_chunk_header d (At P) = Some h"
  shows "AsepriteParseChunk tinfl d File Frame P =
    (if ChunkType h = AsepriteChunk_OldPalette then
       (if \<not> UsesNewPalette P then
          map_option (\<lambda>File1. (File1, Frame, P\<lparr>At := At P + unat (ChunkSize h)\<rparr>))
            (AsepriteParseOldPalette d File (At P + sizeof_chunk_header))
        else Some (File, Frame, P\<lparr>At := At P + unat (ChunkSize h)\<rparr>))
     else if ChunkType h = AsepriteChunk_Layer then
       map_option (\<lambda>(File1, P2). (File1, Frame, P2))
         (AsepriteParseLayer d File (P\<lparr>At := At P + unat (ChunkSize h)\<rparr>)
            (At P + sizeof_chunk_header))
     else if ChunkType h = AsepriteChunk_Cel then
       map_option (\<lambda>Frame2. (File, Frame2, P\<lparr>At := At P + unat (ChunkSize h)\<rparr>))
         (AsepriteParseCel tinfl d
            (if aseprite_frame.NumLayers Frame \<noteq> aseprite_file.NumLayers File then
               Frame\<lparr>aseprite_frame.NumLayers := aseprite_file.NumLayers File,
                     Layers := Some (replicate (nat (aseprite_file.NumLayers File)) fresh_layer)\<rparr>
             else Frame)
            (At P + sizeof_chunk_header) (sint (ChunkSize h - 6)))
     else if ChunkType h = AsepriteChunk_Palette then
       map_option (\<lambda>File1. (File1, Frame,
                     P\<lparr>At := At P + unat (ChunkSize h), UsesNewPalette := True\<rparr>))
         (AsepriteParsePalette d File (At P + sizeof_chunk_header))
     else Some (File, Frame, P\<lparr>At := At P + unat (ChunkSize h)\<rparr>))"
  using assms
  by (auto simp add: AsepriteParseChunk_def Let_def map_option_case chunk_type_defs
           split: option.splits Option.bind_splits)

lemma AsepriteParseChunk_readable:
  "AsepriteParseChunk tinfl d File Frame P = Some st \<Longrightarrow> \<exists>h. read_chunk_header d (At P) = Some h"
  by (auto simp add: AsepriteParseChunk_def split: Option.bind_splits)

lemma AsepriteParseChunk_step:
  assumes h: "read_chunk_header d (At P) = Some h"
    and step: "AsepriteParseChunk tinfl d File Frame P = Some (File', Frame', P')"
  shows "At P' = At P + unat (ChunkSize h)"
    and "UsesNewPalette P' = (UsesNewPalette P \<or> ChunkType h = AsepriteChunk_Palette)"
    and "ChunkType h \<noteq> AsepriteChunk_Palette \<Longrightarrow>
           ChunkType h \<noteq> AsepriteChunk_OldPalette \<or> UsesNewPalette P \<Longrightarrow>
           Palette File' = Palette File"
    and "ChunkType h = AsepriteChunk_OldPalette \<Longrightarrow> \<not> UsesNewPalette P \<Longrightarrow> legacy_table File'"
    and "aseprite_file.Frames File' = aseprite_file.Frames File"
  using step unfolding AsepriteParseChunk_header [OF h]
  by (auto simp add: chunk_type_defs legacy_table_def AsepriteParsePalette_def
           split: if_splits Option.bind_splits
           dest!: AsepriteParseLayer_frame AsepriteParseOldPalette_table)

lemma palette_run_empty: "palette_run P File [] P File"
  by (simp add: palette_run_def)

lemma palette_runD:
  assumes "palette_run P File ts P' File'"
  shows "UsesNewPalette P \<Longrightarrow> UsesNewPalette P'"
    and "AsepriteChunk_Palette \<notin> set ts \<Longrightarrow> UsesNewPalette P' = UsesNewPalette P"
    and "AsepriteChunk_Palette \<notin> set ts \<Longrightarrow> UsesNewPalette P \<Longrightarrow> Palette File' = Palette File"
    and "AsepriteChunk_Palette \<notin> set ts \<Longrightarrow> AsepriteChunk_OldPalette \<notin> set ts \<Longrightarrow>
           Palette File' = Palette File"
    and "AsepriteChunk_Palette \<notin> set ts \<Longrightarrow> \<not> UsesNewPalette P \<Longrightarrow>
           AsepriteChunk_OldPalette \<in> set ts \<Longrightarrow> legacy_table File'"
  using assms by (simp_all add: palette_run_def)

lemma palette_runI:
  assumes "UsesNewPalette P \<Longrightarrow> UsesNewPalette P'"
    and "AsepriteChunk_Palette \<notin> set ts \<Longrightarrow> UsesNewPalette P' = UsesNewPalette P"
    and "AsepriteChunk_Palette \<notin> set ts \<Longrightarrow> UsesNewPalette P \<Longrightarrow> Palette File' = Palette File"
    and "AsepriteChunk_Palette \<notin> set ts \<Longrightarrow> AsepriteChunk_OldPalette \<notin> set ts \<Longrightarrow>
           Palette File' = Palette File"
    and "AsepriteChunk_Palette \<notin> set ts \<Longrightarrow> \<not> UsesNewPalette P \<Longrightarrow>
           AsepriteChunk_OldPalette \<in> set ts \<Longrightarrow> legacy_table File'"
  shows "palette_run P File ts P' File'"
  unfolding palette_run_def
proof (intro conjI impI)
  show "UsesNewPalette P'" if "UsesNewPalette P" using that assms(1) by simp
  show "UsesNewPalette P' = UsesNewPalette P" if "AsepriteChunk_Palette \<notin> set ts"
    using that assms(2) by simp
  show "Palette File' = Palette File"
    if "AsepriteChunk_Palette \<notin> set ts" and "UsesNewPalette P \<or> AsepriteChunk_OldPalette \<notin> set ts"
    using that(2)
  proof
    assume "UsesNewPalette P"
    then show ?thesis using that(1) assms(3) by simp
  next
    assume "AsepriteChunk_OldPalette \<notin> set ts"
    then show ?thesis using that(1) assms(4) by simp
  qed
  show "legacy_table File'"
    if "AsepriteChunk_Palette \<notin> set ts" and "\<not> UsesNewPalette P \<and> AsepriteChunk_OldPalette \<in> set ts"
    using that assms(5) by simp
qed

lemma palette_run_append:
  assumes r: "palette_run P File ts P1 File1" and r1: "palette_run P1 File1 ts1 P' File'"
  shows "palette_run P File (ts @ ts1) P' File'"
proof (rule palette_runI)
  show "UsesNewPalette P'" if "UsesNewPalette P"
    using palette_runD(1) [OF r1] palette_runD(1) [OF r] that by simp
next
  assume "AsepriteChunk_Palette \<notin> set (ts @ ts1)"
  then have n: "AsepriteChunk_Palette \<notin> set ts" and n1: "AsepriteChunk_Palette \<notin> set ts1"
    by simp_all
  show "UsesNewPalette P' = UsesNewPalette P"
    using palette_runD(2) [OF r n] palette_runD(2) [OF r1 n1] by simp
next
  assume "AsepriteChunk_Palette \<notin> set (ts @ ts1)" and f: "UsesNewPalette P"
  then have n: "AsepriteChunk_Palette \<notin> set ts" and n1: "AsepriteChunk_Palette \<notin> set ts1"
    by simp_all
  have "UsesNewPalette P1" using palette_runD(1) [OF r f] .
  then have "Palette File' = Palette File1" using palette_runD(3) [OF r1 n1] by simp
  moreover have "Palette File1 = Palette File" using palette_runD(3) [OF r n f] .
  ultimately show "Palette File' = Palette File" by simp
next
  assume "AsepriteChunk_Palette \<notin> set (ts @ ts1)" and "AsepriteChunk_OldPalette \<notin> set (ts @ ts1)"
  then have n: "AsepriteChunk_Palette \<notin> set ts" and n1: "AsepriteChunk_Palette \<notin> set ts1"
    and o: "AsepriteChunk_OldPalette \<notin> set ts" and o1: "AsepriteChunk_OldPalette \<notin> set ts1"
    by simp_all
  have "Palette File' = Palette File1" using palette_runD(4) [OF r1 n1 o1] .
  moreover have "Palette File1 = Palette File" using palette_runD(4) [OF r n o] .
  ultimately show "Palette File' = Palette File" by simp
next
  assume "AsepriteChunk_Palette \<notin> set (ts @ ts1)" and f: "\<not> UsesNewPalette P"
    and old: "AsepriteChunk_OldPalette \<in> set (ts @ ts1)"
  then have n: "AsepriteChunk_Palette \<notin> set ts" and n1: "AsepriteChunk_Palette \<notin> set ts1"
    by simp_all
  have f1: "\<not> UsesNewPalette P1" using palette_runD(2) [OF r n] f by simp
  show "legacy_table File'"
  proof (cases "AsepriteChunk_OldPalette \<in> set ts1")
    case True
    then show ?thesis using palette_runD(5) [OF r1 n1 f1] by simp
  next
    case False
    with old have "AsepriteChunk_OldPalette \<in> set ts" by simp
    then have "legacy_table File1" using palette_runD(5) [OF r n f] by simp
    moreover have "Palette File' = Palette File1" using palette_runD(4) [OF r1 n1 False] .
    ultimately show ?thesis by (simp add: legacy_table_def)
  qed
qed

lemma AsepriteParseChunk_palette_run:
  assumes h: "read_chunk_header d (At P) = Some h"
    and step: "AsepriteParseChunk tinfl d File Frame P = Some (File', Frame', P')"
  shows "palette_run P File [ChunkType h] P' File'"
  using AsepriteParseChunk_step(2-4) [OF h step]
  by (auto simp add: palette_run_def)

lemma chunk_loop_done:
  "\<not> i < n \<Longrightarrow> chunk_loop tinfl d n i st = Some st"
  by (cases st) (simp add: chunk_loop.simps)

lemma chunk_loop_next:
  assumes "i < n" and "chunk_loop tinfl d n i (File, Frame, P) = Some st'"
  obtains File1 Frame1 P1 where
    "AsepriteParseChunk tinfl d File Frame P = Some (File1, Frame1, P1)"
    and "chunk_loop tinfl d n (i + 1) (File1, Frame1, P1) = Some st'"
  using assms by (auto simp add: chunk_loop.simps [of tinfl d n i] split: option.splits)

lemma chunk_types_done: "\<not> i < n \<Longrightarrow> chunk_types d n i pos = Some ([], pos)"
  by (simp add: chunk_types.simps)

lemma chunk_types_next:
  assumes "i < n" and "read_chunk_header d pos = Some h"
  shows "chunk_types d n i pos =
     map_option (\<lambda>(ts, e). (ChunkType h # ts, e))
       (chunk_types d n (i + 1) (pos + unat (ChunkSize h)))"
  using assms by (subst chunk_types.simps) (simp split: option.splits)

text \<open>What a run of chunks does to the cursor, the flag and the palette.\<close>

lemma chunk_loop_run:
  assumes "chunk_loop tinfl d n i (File, Frame, P) = Some (File', Frame', P')"
  shows "\<exists>ts. chunk_types d n i (At P) = Some (ts, At P')
     \<and> palette_run P File ts P' File'
     \<and> aseprite_file.Frames File' = aseprite_file.Frames File"
  using assms
proof (induction tinfl d n i "(File, Frame, P)" arbitrary: File Frame P rule: chunk_loop.induct)
  case (1 tinfl d n i File Frame P)
  show ?case
  proof (cases "i < n")
    case False
    with "1.prems" show ?thesis
      by (simp add: chunk_loop_done chunk_types_done palette_run_empty)
  next
    case True
    from chunk_loop_next [OF True "1.prems"] obtain File1 Frame1 P1 where
      step: "AsepriteParseChunk tinfl d File Frame P = Some (File1, Frame1, P1)"
      and rest: "chunk_loop tinfl d n (i + 1) (File1, Frame1, P1) = Some (File', Frame', P')"
      by blast
    from AsepriteParseChunk_readable [OF step] obtain h where
      h: "read_chunk_header d (At P) = Some h" by blast
    note s = AsepriteParseChunk_step [OF h step]
    from "1.hyps" [OF True step rest] obtain ts where
      ts: "chunk_types d n (i + 1) (At P1) = Some (ts, At P')"
      and run: "palette_run P1 File1 ts P' File'"
      and frames: "aseprite_file.Frames File' = aseprite_file.Frames File1"
      by blast
    have types: "chunk_types d n i (At P) = Some (ChunkType h # ts, At P')"
      using ts s(1) by (simp add: chunk_types_next [OF True h])
    have "palette_run P File ([ChunkType h] @ ts) P' File'"
      using AsepriteParseChunk_palette_run [OF h step] run by (rule palette_run_append)
    moreover have "aseprite_file.Frames File' = aseprite_file.Frames File"
      using frames s(5) by simp
    ultimately show ?thesis using types by simp
  qed
qed

lemma AsepriteParseFrame_run:
  assumes "AsepriteParseFrame tinfl d File Frame P = Some (File', Frame', P')"
  shows "\<exists>fh ts. read_frame_header d (At P) = Some fh
     \<and> chunk_types d (unat (ChunksInFrame fh)) 0 (At P + sizeof_frame_header) = Some (ts, At P')
     \<and> palette_run P File ts P' File'
     \<and> aseprite_file.Frames File' = aseprite_file.Frames File"
proof -
  from assms obtain fh where fh: "read_frame_header d (At P) = Some fh"
    and loop: "chunk_loop tinfl d (unat (ChunksInFrame fh)) 0
       (File, Frame\<lparr>aseprite_frame.Header := Some fh\<rparr>, P\<lparr>At := At P + sizeof_frame_header\<rparr>)
       = Some (File', Frame', P')"
    by (auto simp add: AsepriteParseFrame_def Let_def split: Option.bind_splits)
  from chunk_loop_run [OF loop] fh show ?thesis
    by (auto simp add: palette_run_def)
qed

lemma frame_loop_done: "\<not> i < n \<Longrightarrow> frame_loop tinfl d n i st = Some st"
  by (cases st) (simp add: frame_loop.simps)

lemma frame_loop_next:
  assumes "i < n" and "frame_loop tinfl d n i (File, P) = Some st'"
  obtains File1 Frame1 P1 where
    "AsepriteParseFrame tinfl d File (aseprite_file.Frames File ! i) P = Some (File1, Frame1, P1)"
    and "frame_loop tinfl d n (i + 1)
           (File1\<lparr>aseprite_file.Frames := (aseprite_file.Frames File1)[i := Frame1]\<rparr>, P1) = Some st'"
  using assms
  by (auto simp add: frame_loop.simps [of tinfl d n i] split: option.splits if_splits)

lemma frame_chunk_types_done: "\<not> i < n \<Longrightarrow> frame_chunk_types d n i pos = Some []"
  by (simp add: frame_chunk_types.simps)

lemma frame_chunk_types_next:
  assumes "i < n" and "read_frame_header d pos = Some fh"
    and "chunk_types d (unat (ChunksInFrame fh)) 0 (pos + sizeof_frame_header) = Some (ts, e)"
  shows "frame_chunk_types d n i pos = map_option (\<lambda>ts1. ts @ ts1) (frame_chunk_types d n (i + 1) e)"
  using assms by (subst frame_chunk_types.simps) (simp split: option.splits)

lemma frame_loop_run:
  assumes "frame_loop tinfl d n i (File, P) = Some (File', P')"
  shows "\<exists>ts. frame_chunk_types d n i (At P) = Some ts \<and> palette_run P File ts P' File'"
  using assms
proof (induction tinfl d n i "(File, P)" arbitrary: File P rule: frame_loop.induct)
  case (1 tinfl d n i File P)
  show ?case
  proof (cases "i < n")
    case False
    with "1.prems" show ?thesis
      by (simp add: frame_loop_done frame_chunk_types_done palette_run_empty)
  next
    case True
    from frame_loop_next [OF True "1.prems"] obtain File1 Frame1 P1 where
      frame: "AsepriteParseFrame tinfl d File (aseprite_file.Frames File ! i) P = Some (File1, Frame1, P1)"
      and rest: "frame_loop tinfl d n (i + 1)
           (File1\<lparr>aseprite_file.Frames := (aseprite_file.Frames File1)[i := Frame1]\<rparr>, P1)
           = Some (File', P')"
      by blast
    have len: "i < length (aseprite_file.Frames File)"
      using True "1.prems" by (auto simp add: frame_loop.simps [of tinfl d n i] split: if_splits)
    from AsepriteParseFrame_run [OF frame] obtain fh ts where
      fh: "read_frame_header d (At P) = Some fh"
      and ts: "chunk_types d (unat (ChunksInFrame fh)) 0 (At P + sizeof_frame_header) = Some (ts, At P1)"
      and run: "palette_run P File ts P1 File1"
      by blast
    from "1.hyps" [OF True len frame refl refl rest] obtain ts1 where
      ts1: "frame_chunk_types d n (i + 1) (At P1) = Some ts1"
      and run1: "palette_run P1 (File1\<lparr>aseprite_file.Frames := (aseprite_file.Frames File1)[i := Frame1]\<rparr>)
                   ts1 P' File'"
      by blast
    have run1': "palette_run P1 File1 ts1 P' File'"
      using run1 by (simp add: palette_run_def)
    have "frame_chunk_types d n i (At P) = Some (ts @ ts1)"
      using ts1 by (simp add: frame_chunk_types_next [OF True fh ts])
    moreover have "palette_run P File (ts @ ts1) P' File'"
      using run run1' by (rule palette_run_append)
    ultimately show ?thesis by blast
  qed
qed

lemma AsepriteParseFile_run:
  assumes "AsepriteParseFile tinfl garbage d = Some File"
  shows "\<exists>ts. file_chunk_types d = Some ts
     \<and> (AsepriteChunk_Palette \<notin> set ts \<longrightarrow>
           (AsepriteChunk_OldPalette \<in> set ts \<longrightarrow> legacy_table File)
         \<and> (AsepriteChunk_OldPalette \<notin> set ts \<longrightarrow> Colors (Palette File) = None))"
proof -
  from assms obtain h File0 P' where h: "read_header d 0 = Some h"
    and loop: "frame_loop tinfl d (unat (aseprite_header.Frames h)) 0
        (File0, \<lparr>At = sizeof_header, AvailableLayers = 2, UsesNewPalette = False\<rparr>) = Some (File, P')"
    and File0: "Palette File0 = \<lparr>aseprite_palette.Header = None, NumColors = None, Colors = None\<rparr>"
    by (auto simp add: AsepriteParseFile_def Let_def split: Option.bind_splits)
  from frame_loop_run [OF loop] obtain ts where
    ts: "frame_chunk_types d (unat (aseprite_header.Frames h)) 0 sizeof_header = Some ts"
    and run: "palette_run \<lparr>At = sizeof_header, AvailableLayers = 2, UsesNewPalette = False\<rparr>
                File0 ts P' File"
    by auto
  have "file_chunk_types d = Some ts"
    using h ts by (simp add: file_chunk_types_def)
  moreover have "legacy_table File"
    if "AsepriteChunk_Palette \<notin> set ts" and "AsepriteChunk_OldPalette \<in> set ts"
    using palette_runD(5) [OF run] that by simp
  moreover have "Colors (Palette File) = None"
    if "AsepriteChunk_Palette \<notin> set ts" and "AsepriteChunk_OldPalette \<notin> set ts"
    using palette_runD(4) [OF run] that File0 by simp
  ultimately show ?thesis by blast
qed

lemma old_palette_colors_result:
  assumes "old_palette_colors d e i c tab = Some (c', tab')"
  shows "c' = c + 3 * (e - i) \<and> length tab' = length tab
     \<and> (i < e \<longrightarrow> e \<le> length tab \<and> c' \<le> length d)
     \<and> (\<forall>j < length tab. tab' ! j =
          (if i \<le> j \<and> j < e then
             Some (AsepriteColorFromR8G8B8A8 (d ! (c + 3 * (j - i))) (d ! (c + 3 * (j - i) + 1))
                     (d ! (c + 3 * (j - i) + 2)) 255)
           else tab ! j))"
  using assms
proof (induction d e i c tab rule: old_palette_colors.induct)
  case (1 d End ColorIndex ChunkData tab)
  show ?case
  proof (cases "ColorIndex < End")
    case False
    with "1.prems" show ?thesis
      by (auto simp add: old_palette_colors.simps [of d End ColorIndex])
  next
    case True
    let ?col = "AsepriteColorFromR8G8B8A8 (d ! ChunkData) (d ! (ChunkData + 1)) (d ! (ChunkData + 2)) 255"
    from "1.prems" True have inb: "ChunkData + 3 \<le> length d" and idx: "ColorIndex < length tab"
      and rest: "old_palette_colors d End (ColorIndex + 1) (ChunkData + 3)
                   (tab[ColorIndex := Some ?col]) = Some (c', tab')"
      by (auto simp add: old_palette_colors.simps [of d End ColorIndex] read_u8_def in_buffer_def
               u8_at_def split: if_splits Option.bind_splits)
    have r8: "read_u8 d ChunkData = Some (d ! ChunkData)"
      "read_u8 d (ChunkData + 1) = Some (d ! (ChunkData + 1))"
      "read_u8 d (ChunkData + 2) = Some (d ! (ChunkData + 2))"
      using inb by (simp_all add: read_u8_def in_buffer_def u8_at_def)
    note ih = "1.IH" [OF True r8(1) r8(2) r8(3) idx rest]
    have c': "c' = ChunkData + 3 + 3 * (End - (ColorIndex + 1))"
      using ih by blast
    have len: "length tab' = length tab"
      using ih by simp
    have bound: "ColorIndex + 1 < End \<longrightarrow> End \<le> length tab \<and> c' \<le> length d"
      using ih by (metis length_list_update)
    have cells: "\<forall>j < length tab. tab' ! j =
          (if ColorIndex + 1 \<le> j \<and> j < End then
             Some (AsepriteColorFromR8G8B8A8 (d ! (ChunkData + 3 + 3 * (j - (ColorIndex + 1))))
                     (d ! (ChunkData + 3 + 3 * (j - (ColorIndex + 1)) + 1))
                     (d ! (ChunkData + 3 + 3 * (j - (ColorIndex + 1)) + 2)) 255)
           else (tab[ColorIndex := Some ?col]) ! j)"
      using ih by (metis length_list_update)
    have 1: "c' = ChunkData + 3 * (End - ColorIndex)"
      using c' True by simp
    have 2: "End \<le> length tab \<and> c' \<le> length d"
    proof (cases "ColorIndex + 1 < End")
      case True
      then show ?thesis using bound by simp
    next
      case False
      with \<open>ColorIndex < End\<close> have "End = ColorIndex + 1" by simp
      then show ?thesis using idx inb c' by simp
    qed
    have 3: "tab' ! j =
          (if ColorIndex \<le> j \<and> j < End then
             Some (AsepriteColorFromR8G8B8A8 (d ! (ChunkData + 3 * (j - ColorIndex)))
                     (d ! (ChunkData + 3 * (j - ColorIndex) + 1))
                     (d ! (ChunkData + 3 * (j - ColorIndex) + 2)) 255)
           else tab ! j)" if j: "j < length tab" for j
    proof (cases "ColorIndex + 1 \<le> j")
      case True
      then have "ChunkData + 3 + 3 * (j - (ColorIndex + 1)) = ChunkData + 3 * (j - ColorIndex)"
        by simp
      then show ?thesis using cells j True by (simp add: add.assoc)
    next
      case False
      then show ?thesis using cells j idx True by (cases "j = ColorIndex") auto
    qed
    from 1 2 3 len show ?thesis by simp
  qed
qed

lemma old_palette_packet_result:
  assumes "old_palette_packet d c tab = Some (c1, tab1)"
  shows "c + 2 \<le> length d
     \<and> c1 = c + 2 + 3 * (if d ! (c + 1) = 0 then 256 else unat (d ! (c + 1)))
     \<and> c1 \<le> length d
     \<and> length tab1 = length tab
     \<and> unat (d ! c) + (if d ! (c + 1) = 0 then 256 else unat (d ! (c + 1))) \<le> length tab
     \<and> (\<forall>j < length tab. tab1 ! j =
          (if unat (d ! c) \<le> j
              \<and> j < unat (d ! c) + (if d ! (c + 1) = 0 then 256 else unat (d ! (c + 1)))
           then Some (AsepriteColorFromR8G8B8A8
                        (d ! (c + 2 + 3 * (j - unat (d ! c))))
                        (d ! (c + 2 + 3 * (j - unat (d ! c)) + 1))
                        (d ! (c + 2 + 3 * (j - unat (d ! c)) + 2)) 255)
           else tab ! j))"
proof -
  let ?n = "if d ! (c + 1) = 0 then 256 else unat (d ! (c + 1))"
  from assms have inb: "c + 2 \<le> length d"
    and colors: "old_palette_colors d (unat (d ! c) + ?n) (unat (d ! c)) (c + 2) tab = Some (c1, tab1)"
    by (auto simp add: old_palette_packet_def read_u8_def in_buffer_def u8_at_def Let_def
             split: if_splits Option.bind_splits)
  have pos: "unat (d ! c) < unat (d ! c) + ?n"
    by (simp add: unat_gt_0)
  from old_palette_colors_result [OF colors] pos inb show ?thesis
    by simp
qed

subsection \<open>Running the parser on the example files\<close>

lemmas parser_simps =
  AsepriteParseFile_def frame_loop.simps AsepriteParseFrame_def chunk_loop.simps
  AsepriteParseChunk_def AsepriteParsePalette_def palette_entries.simps
  AsepriteParseOldPalette_def old_palette_packets.simps old_palette_packet_def
  old_palette_colors.simps AsepriteParseCel_def cel_pixels_def AsepriteParseLayer_def
  realloc_layer_info_def AsepriteParseString_def
  read_header_def read_frame_header_def read_chunk_header_def read_palette_header_def
  read_palette_entry_def read_layer_header_def read_cel_header_def read_u8_def read_u16_def
  read_bytes_def in_buffer_def u8_at_def u16_at_def u32_at_def sizeof_defs chunk_type_defs
  file_chunk_types_def frame_chunk_types.simps chunk_types.simps legacy_table_def
  AsepriteCelType_Raw_def AsepriteCelType_Linked_def AsepriteCelType_Compressed_def

lemmas file_defs =
  file_header_bytes_def frame_header_bytes_def palette_chunk_0_1_def palette_chunk_1_def
  legacy_chunk_def cel_chunk_def unknown_chunk_def two_palettes_file_def legacy_file_def
  legacy2_file_def modern_then_legacy_file_def no_tinfl_def parser_at_def blank_frame_def
  blank_file_def canvas_header_def fresh_layer_def

lemma replicate_2: "replicate 2 x = [x, x]"
  by (simp add: numeral_2_eq_2)

lemma upt_0_2: "[0..<2] = [0, Suc 0]"
  by (simp add: numeral_2_eq_2)

lemma legacy_chunk_header:
  "read_chunk_header (legacy_chunk 0x04) (At (parser_at 0 False))
     = Some \<lparr>ChunkSize = 16, ChunkType = AsepriteChunk_OldPalette\<rparr>"
  by (simp add: read_chunk_header_def in_buffer_def u32_at_def u16_at_def sizeof_defs
        legacy_chunk_def parser_at_def chunk_type_defs)

lemma unknown_chunk_header:
  "read_chunk_header unknown_chunk (At (parser_at 0 False))
     = Some \<lparr>ChunkSize = 8, ChunkType = 0x7777\<rparr>"
  by (simp add: read_chunk_header_def in_buffer_def u32_at_def u16_at_def sizeof_defs
        unknown_chunk_def parser_at_def)

lemma legacy_chunk_table:
  "AsepriteParseOldPalette (legacy_chunk 0x04) blank_file 6 =
     Some (blank_file\<lparr>Palette := (Palette blank_file)\<lparr>Colors :=
       Some ((replicate 256 None)
               [1 := Some (AsepriteColorFromR8G8B8A8 10 20 30 255),
                2 := Some (AsepriteColorFromR8G8B8A8 40 50 60 255)])\<rparr>\<rparr>)"
  by (simp add: file_defs parser_simps numeral_2_eq_2 [symmetric])

lemma mtl_header_144:
  "read_chunk_header modern_then_legacy_file (At (parser_at 144 False))
     = Some \<lparr>ChunkSize = 32, ChunkType = AsepriteChunk_Palette\<rparr>"
  by (simp add: file_defs parser_simps nth_append)

lemma mtl_header_192:
  "read_chunk_header modern_then_legacy_file (At (parser_at 192 True))
     = Some \<lparr>ChunkSize = 16, ChunkType = AsepriteChunk_OldPalette\<rparr>"
  by (simp add: file_defs parser_simps nth_append)

lemma mtl_step_144:
  "AsepriteParseChunk no_tinfl modern_then_legacy_file blank_file blank_frame (parser_at 144 False)
     = Some (modern_doc, blank_frame, parser_at 176 True)"
  by (simp add: file_defs parser_simps nth_append replicate_2 modern_doc_def)

lemma mtl_step_192:
  "AsepriteParseChunk no_tinfl modern_then_legacy_file modern_doc blank_frame (parser_at 192 True)
     = Some (modern_doc, blank_frame, parser_at 208 True)"
  by (simp add: file_defs parser_simps nth_append modern_doc_def)

lemma mtl_chunk_loop:
  "chunk_loop no_tinfl modern_then_legacy_file 1 0 (modern_doc, blank_frame, parser_at 192 True)
     = Some (modern_doc, blank_frame, parser_at 208 True)"
  by (simp add: chunk_loop.simps mtl_step_192)

lemma mtl_frame_loop:
  "frame_loop no_tinfl modern_then_legacy_file 2 1
      (modern_doc\<lparr>aseprite_file.Frames := [blank_frame, blank_frame]\<rparr>, parser_at 176 True)
     = Some (modern_doc\<lparr>aseprite_file.Frames :=
               [blank_frame,
                blank_frame\<lparr>aseprite_frame.Header := Some \<lparr>BytesInFrame = 0,
                   aseprite_frame_header.MagicNumber = 0, ChunksInFrame = 1,
                   FrameDuration = 0\<rparr>\<rparr>]\<rparr>,
             parser_at 208 True)"
  by (simp add: file_defs parser_simps nth_append modern_doc_def)

lemma mtl_file:
  "map_option (\<lambda>Doc. Colors (Palette Doc))
      (AsepriteParseFile no_tinfl (\<lambda>i. 0) modern_then_legacy_file)
     = Some (Some [None, Some (AsepriteColorFromR8G8B8A8 70 80 90 255)])"
  by (simp add: file_defs parser_simps nth_append replicate_2 upt_0_2 Let_def)

lemma legacy_file_packet:
  "old_palette_packet legacy_file 152 (replicate 256 None) = Some (160, legacy_colors)"
  by (simp add: file_defs parser_simps nth_append legacy_colors_def numeral_2_eq_2 [symmetric])

lemma legacy_file_packets:
  "old_palette_packets legacy_file 1 0 152 (replicate 256 None) = Some legacy_colors"
  by (simp add: old_palette_packets.simps legacy_file_packet)

lemma legacy_file_chunk:
  "AsepriteParseOldPalette legacy_file blank_file 150
     = Some (blank_file\<lparr>Palette := (Palette blank_file)\<lparr>Colors := Some legacy_colors\<rparr>\<rparr>)"
  by (simp add: file_defs parser_simps nth_append legacy_colors_def numeral_2_eq_2 [symmetric])

lemma legacy_file_types: "file_chunk_types legacy_file = Some [AsepriteChunk_OldPalette]"
  by (simp add: file_defs parser_simps nth_append)

lemma legacy_file_parses: "\<exists>Doc. AsepriteParseFile no_tinfl (\<lambda>i. 0) legacy_file = Some Doc"
  by (simp add: file_defs parser_simps nth_append Let_def)

lemma cel_chunk_header:
  "read_chunk_header cel_chunk (At (parser_at 0 False))
     = Some \<lparr>ChunkSize = 27, ChunkType = AsepriteChunk_Cel\<rparr>"
  by (simp add: file_defs parser_simps)

lemma cel_chunk_fresh:
  "AsepriteParseChunk no_tinfl cel_chunk two_layer_doc
      (blank_frame\<lparr>aseprite_frame.NumLayers := 7\<rparr>) (parser_at 0 False)
     = Some (two_layer_doc,
             blank_frame\<lparr>aseprite_frame.NumLayers := 2, Layers := Some [fresh_layer, decoded_cel]\<rparr>,
             parser_at 27 False)"
  by (simp add: file_defs parser_simps two_layer_doc_def decoded_cel_def replicate_2 nth_append)

lemma cel_chunk_kept:
  "AsepriteParseChunk no_tinfl cel_chunk two_layer_doc
      (blank_frame\<lparr>aseprite_frame.NumLayers := 2,
                   Layers := Some [cel_at 3 4 1 1 [9], fresh_layer]\<rparr>) (parser_at 0 False)
     = Some (two_layer_doc,
             blank_frame\<lparr>aseprite_frame.NumLayers := 2,
                         Layers := Some [cel_at 3 4 1 1 [9], decoded_cel]\<rparr>,
             parser_at 27 False)"
  by (simp add: file_defs parser_simps two_layer_doc_def decoded_cel_def cel_at_def nth_append)

lemma cel_pixels_header:
  "cel_pixels tinfl d L ty c len = Some L' \<Longrightarrow> aseprite_layer.Header L' = aseprite_layer.Header L"
  by (auto simp add: cel_pixels_def Let_def split: if_splits Option.bind_splits)

lemma AsepriteParseCel_result:
  assumes "AsepriteParseCel tinfl d Frame c len = Some Frame'"
  shows "\<exists>ch slots cel. read_cel_header d c = Some ch \<and> Layers Frame = Some slots
     \<and> unat (LayerIndex ch) < length slots
     \<and> cel_pixels tinfl d ((slots ! unat (LayerIndex ch))\<lparr>aseprite_layer.Header := Some ch\<rparr>)
          (CelType ch) (c + sizeof_cel_header) len = Some cel
     \<and> Frame' = Frame\<lparr>Layers := Some (slots[unat (LayerIndex ch) := cel])\<rparr>"
  using assms
  by (auto simp add: AsepriteParseCel_def Let_def split: if_splits Option.bind_splits)

subsection \<open>Palette chunks\<close>

text \<open>
  Claim C3 (the importer does not do what the claim says). The file
  \<open>two_palettes_file\<close> has two modern palette chunks, both for a table of 2 colours:
  the first sets the indices 0 and 1, the second sets index 1 only. After the first
  chunk the table holds both colours. After the second chunk, the end of the file, index
  1 holds the new colour and index 0 is an entry of a fresh \<open>malloc\<close> that was never
  written: the colour that the first chunk stored there is gone.
\<close>

theorem AsepriteParsePalette_discards_prior_table:
  "map_option (\<lambda>(File, Frame, P). Colors (Palette File))
      (chunk_loop no_tinfl two_palettes_file 1 0 (blank_file, blank_frame, parser_at 144 False))
    = Some (Some [Some (AsepriteColorFromR8G8B8A8 10 20 30 255),
                  Some (AsepriteColorFromR8G8B8A8 40 50 60 255)])
   \<and> map_option (\<lambda>File. Colors (Palette File))
        (AsepriteParseFile no_tinfl (\<lambda>i. 0) two_palettes_file)
      = Some (Some [None, Some (AsepriteColorFromR8G8B8A8 70 80 90 255)])"
  by (simp add: file_defs parser_simps nth_append replicate_2)

text \<open>
  Claim C4, as the code has it. A legacy palette chunk that is decoded yields a fresh
  table of 256 entries, filled by running the packets that the 16-bit packet count
  announces, one after the other, from the offset after the count. One packet reads a
  start index byte and a count byte, where the count 0 stands for 256, and then three
  bytes per colour: the entries from \<open>start\<close> up to \<open>start + count\<close>, which must lie
  inside the table, become the colours of these bytes with alpha 255, and every other
  entry is left as it was. And a file without a modern palette chunk and with at least
  one chunk of type \<open>0x0004\<close> ends with a palette table of 256 entries.
\<close>

theorem AsepriteParseOldPalette_packets:
  "(AsepriteParseOldPalette d File c = Some File' \<longrightarrow>
      (\<exists>tab. old_palette_packets d (unat (u16_at d c)) 0 (c + 2) (replicate 256 None) = Some tab
         \<and> length tab = 256
         \<and> File' = File\<lparr>Palette := (Palette File)\<lparr>Colors := Some tab\<rparr>\<rparr>))
   \<and> (i < n \<and> old_palette_packets d n i c tab = Some tab' \<longrightarrow>
      (\<exists>c1 tab1. old_palette_packet d c tab = Some (c1, tab1)
         \<and> old_palette_packets d n (i + 1) c1 tab1 = Some tab'))
   \<and> (old_palette_packet d c tab = Some (c1, tab1) \<longrightarrow>
        c + 2 \<le> length d
      \<and> c1 = c + 2 + 3 * (if d ! (c + 1) = 0 then 256 else unat (d ! (c + 1)))
      \<and> c1 \<le> length d
      \<and> length tab1 = length tab
      \<and> unat (d ! c) + (if d ! (c + 1) = 0 then 256 else unat (d ! (c + 1))) \<le> length tab
      \<and> (\<forall>j < length tab. tab1 ! j =
           (if unat (d ! c) \<le> j
               \<and> j < unat (d ! c) + (if d ! (c + 1) = 0 then 256 else unat (d ! (c + 1)))
            then Some (AsepriteColorFromR8G8B8A8
                         (d ! (c + 2 + 3 * (j - unat (d ! c))))
                         (d ! (c + 2 + 3 * (j - unat (d ! c)) + 1))
                         (d ! (c + 2 + 3 * (j - unat (d ! c)) + 2)) 255)
            else tab ! j)))
   \<and> (AsepriteParseFile tinfl garbage d = Some Doc \<longrightarrow>
      (\<exists>ts. file_chunk_types d = Some ts
         \<and> (AsepriteChunk_Palette \<notin> set ts \<and> AsepriteChunk_OldPalette \<in> set ts \<longrightarrow>
              legacy_table Doc)))"
proof -
  have A: "AsepriteParseOldPalette d File c = Some File' \<longrightarrow>
      (\<exists>tab. old_palette_packets d (unat (u16_at d c)) 0 (c + 2) (replicate 256 None) = Some tab
         \<and> length tab = 256
         \<and> File' = File\<lparr>Palette := (Palette File)\<lparr>Colors := Some tab\<rparr>\<rparr>)"
  proof
    assume a: "AsepriteParseOldPalette d File c = Some File'"
    then obtain tab where
      tab: "old_palette_packets d (unat (u16_at d c)) 0 (c + 2) (replicate 256 None) = Some tab"
      and File': "File' = File\<lparr>Palette := (Palette File)\<lparr>Colors := Some tab\<rparr>\<rparr>"
      by (auto simp add: AsepriteParseOldPalette_def read_u16_def
               split: if_splits Option.bind_splits)
    from old_palette_packets_length [OF tab] have "length tab = 256" by simp
    with tab File' show "\<exists>tab. old_palette_packets d (unat (u16_at d c)) 0 (c + 2)
           (replicate 256 None) = Some tab
         \<and> length tab = 256
         \<and> File' = File\<lparr>Palette := (Palette File)\<lparr>Colors := Some tab\<rparr>\<rparr>"
      by blast
  qed
  have B: "i < n \<and> old_palette_packets d n i c tab = Some tab' \<longrightarrow>
      (\<exists>c1 tab1. old_palette_packet d c tab = Some (c1, tab1)
         \<and> old_palette_packets d n (i + 1) c1 tab1 = Some tab')"
    by (auto simp add: old_palette_packets.simps [of d n i] split: option.splits)
  have C: "old_palette_packet d c tab = Some (c1, tab1) \<longrightarrow>
        c + 2 \<le> length d
      \<and> c1 = c + 2 + 3 * (if d ! (c + 1) = 0 then 256 else unat (d ! (c + 1)))
      \<and> c1 \<le> length d
      \<and> length tab1 = length tab
      \<and> unat (d ! c) + (if d ! (c + 1) = 0 then 256 else unat (d ! (c + 1))) \<le> length tab
      \<and> (\<forall>j < length tab. tab1 ! j =
           (if unat (d ! c) \<le> j
               \<and> j < unat (d ! c) + (if d ! (c + 1) = 0 then 256 else unat (d ! (c + 1)))
            then Some (AsepriteColorFromR8G8B8A8
                         (d ! (c + 2 + 3 * (j - unat (d ! c))))
                         (d ! (c + 2 + 3 * (j - unat (d ! c)) + 1))
                         (d ! (c + 2 + 3 * (j - unat (d ! c)) + 2)) 255)
            else tab ! j))"
    by (rule impI) (rule old_palette_packet_result)
  have D: "AsepriteParseFile tinfl garbage d = Some Doc \<longrightarrow>
      (\<exists>ts. file_chunk_types d = Some ts
         \<and> (AsepriteChunk_Palette \<notin> set ts \<and> AsepriteChunk_OldPalette \<in> set ts \<longrightarrow>
              legacy_table Doc))"
  proof
    assume a: "AsepriteParseFile tinfl garbage d = Some Doc"
    from AsepriteParseFile_run [OF a]
    show "\<exists>ts. file_chunk_types d = Some ts
         \<and> (AsepriteChunk_Palette \<notin> set ts \<and> AsepriteChunk_OldPalette \<in> set ts \<longrightarrow>
              legacy_table Doc)"
      by blast
  qed
  show ?thesis
    by (rule conjI [OF A conjI [OF B conjI [OF C D]]])
qed

text \<open>In \<open>legacy_file\<close> the chunk of type \<open>0x0004\<close> has its payload at offset 150
  and its one packet at offset 152: start index 1, two colours.\<close>

theorem AsepriteParseOldPalette_packets_witness:
  "old_palette_packet legacy_file 152 (replicate 256 None) = Some (160, legacy_colors)
   \<and> length legacy_colors = 256
   \<and> legacy_colors ! 0 = None
   \<and> legacy_colors ! 1 = Some (AsepriteColorFromR8G8B8A8 10 20 30 255)
   \<and> legacy_colors ! 2 = Some (AsepriteColorFromR8G8B8A8 40 50 60 255)
   \<and> legacy_colors ! 3 = None
   \<and> old_palette_packets legacy_file 1 0 152 (replicate 256 None) = Some legacy_colors
   \<and> AsepriteParseOldPalette legacy_file blank_file 150
       = Some (blank_file\<lparr>Palette := (Palette blank_file)\<lparr>Colors := Some legacy_colors\<rparr>\<rparr>)
   \<and> file_chunk_types legacy_file = Some [AsepriteChunk_OldPalette]
   \<and> (\<exists>Doc. AsepriteParseFile no_tinfl (\<lambda>i. 0) legacy_file = Some Doc \<and> legacy_table Doc)"
proof -
  from legacy_file_parses obtain Doc where
    Doc: "AsepriteParseFile no_tinfl (\<lambda>i. 0) legacy_file = Some Doc" by blast
  note packet = AsepriteParseOldPalette_packets [where d = legacy_file and c = 152
      and tab = "replicate 256 None" and ?c1.0 = 160 and ?tab1.0 = legacy_colors,
      THEN conjunct2, THEN conjunct2, THEN conjunct1, rule_format, OF legacy_file_packet]
  note chunk = AsepriteParseOldPalette_packets [where d = legacy_file and c = 150
      and File = blank_file, THEN conjunct1, rule_format, OF legacy_file_chunk]
  have first: "(0::nat) < 1 \<and> old_palette_packets legacy_file 1 0 152 (replicate 256 None)
      = Some legacy_colors"
    using legacy_file_packets by simp
  note loop = AsepriteParseOldPalette_packets [where d = legacy_file and c = 152
      and tab = "replicate 256 None" and i = 0 and n = 1 and tab' = legacy_colors,
      THEN conjunct2, THEN conjunct1, rule_format, OF first]
  note doc = AsepriteParseOldPalette_packets [where d = legacy_file and tinfl = no_tinfl
      and garbage = "\<lambda>i. 0" and Doc = Doc,
      THEN conjunct2, THEN conjunct2, THEN conjunct2, rule_format, OF Doc]
  have table: "legacy_table Doc"
    using doc legacy_file_types by (auto simp add: chunk_type_defs)
  have len: "length legacy_colors = 256"
    using packet by simp
  have cells: "legacy_colors ! 0 = None"
    "legacy_colors ! 1 = Some (AsepriteColorFromR8G8B8A8 10 20 30 255)"
    "legacy_colors ! 2 = Some (AsepriteColorFromR8G8B8A8 40 50 60 255)"
    "legacy_colors ! 3 = None"
    using packet by (simp_all add: legacy_file_def legacy_chunk_def file_header_bytes_def
        frame_header_bytes_def nth_append)
  from chunk loop Doc table len cells legacy_file_packet legacy_file_packets legacy_file_chunk
    legacy_file_types
  show ?thesis by simp
qed

text \<open>
  Claim C4 as stated fails for a file whose only palette chunk is a legacy chunk of
  type \<open>0x0011\<close>: the importer does not decode that type, and the document ends
  without any palette table.
\<close>

theorem legacy_table_type_0011_counterexample:
  "file_chunk_types legacy2_file = Some [AsepriteChunk_OldPalette2]
   \<and> map_option (\<lambda>File. Colors (Palette File)) (AsepriteParseFile no_tinfl (\<lambda>i. 0) legacy2_file)
       = Some None"
  by (simp add: file_defs parser_simps nth_append)

text \<open>
  Claim C5. A modern palette chunk sets the flag \<open>UsesNewPalette\<close>. From a state with
  the flag set, every chunk step leaves the flag set, and a step on a legacy palette
  chunk (type \<open>0x0004\<close> or \<open>0x0011\<close>) leaves the palette as it is. The same holds
  for the loops that drive the steps: the rest of a frame and the rest of the file keep
  the flag set, and keep the palette unchanged as long as no further modern palette
  chunk occurs, whatever legacy chunks they contain.
\<close>

theorem legacy_palette_ignored_after_modern:
  "(read_chunk_header d (At P) = Some h \<and> ChunkType h = AsepriteChunk_Palette
      \<and> AsepriteParseChunk tinfl d File Frame P = Some (File', Frame', P') \<longrightarrow>
        UsesNewPalette P')
   \<and> (UsesNewPalette P \<and> read_chunk_header d (At P) = Some h
      \<and> AsepriteParseChunk tinfl d File Frame P = Some (File', Frame', P') \<longrightarrow>
        UsesNewPalette P'
        \<and> (ChunkType h = AsepriteChunk_OldPalette \<or> ChunkType h = AsepriteChunk_OldPalette2 \<longrightarrow>
             Palette File' = Palette File))
   \<and> (UsesNewPalette P \<and> chunk_loop tinfl d n i (File, Frame, P) = Some (File', Frame', P') \<longrightarrow>
        UsesNewPalette P'
        \<and> (\<exists>ts. chunk_types d n i (At P) = Some (ts, At P')
              \<and> (AsepriteChunk_Palette \<notin> set ts \<longrightarrow> Palette File' = Palette File)))
   \<and> (UsesNewPalette P \<and> frame_loop tinfl d n i (File, P) = Some (File', P') \<longrightarrow>
        UsesNewPalette P'
        \<and> (\<exists>ts. frame_chunk_types d n i (At P) = Some ts
              \<and> (AsepriteChunk_Palette \<notin> set ts \<longrightarrow> Palette File' = Palette File)))"
proof (intro conjI impI)
  assume a: "read_chunk_header d (At P) = Some h \<and> ChunkType h = AsepriteChunk_Palette
      \<and> AsepriteParseChunk tinfl d File Frame P = Some (File', Frame', P')"
  then show "UsesNewPalette P'"
    using AsepriteParseChunk_step(2) [of d P h tinfl File Frame File' Frame' P'] by simp
next
  assume a: "UsesNewPalette P \<and> read_chunk_header d (At P) = Some h
      \<and> AsepriteParseChunk tinfl d File Frame P = Some (File', Frame', P')"
  then show "UsesNewPalette P'"
    using AsepriteParseChunk_step(2) [of d P h tinfl File Frame File' Frame' P'] by simp
next
  assume a: "UsesNewPalette P \<and> read_chunk_header d (At P) = Some h
      \<and> AsepriteParseChunk tinfl d File Frame P = Some (File', Frame', P')"
    and t: "ChunkType h = AsepriteChunk_OldPalette \<or> ChunkType h = AsepriteChunk_OldPalette2"
  from t have "ChunkType h \<noteq> AsepriteChunk_Palette"
    by (auto simp add: chunk_type_defs)
  then show "Palette File' = Palette File"
    using a AsepriteParseChunk_step(3) [of d P h tinfl File Frame File' Frame' P'] by simp
next
  assume a: "UsesNewPalette P \<and> chunk_loop tinfl d n i (File, Frame, P) = Some (File', Frame', P')"
  then obtain ts where ts: "chunk_types d n i (At P) = Some (ts, At P')"
    and run: "palette_run P File ts P' File'"
    using chunk_loop_run by blast
  show "UsesNewPalette P'" using palette_runD(1) [OF run] a by simp
  have "AsepriteChunk_Palette \<notin> set ts \<longrightarrow> Palette File' = Palette File"
    using palette_runD(3) [OF run] a by simp
  with ts show "\<exists>ts. chunk_types d n i (At P) = Some (ts, At P')
              \<and> (AsepriteChunk_Palette \<notin> set ts \<longrightarrow> Palette File' = Palette File)"
    by blast
next
  assume a: "UsesNewPalette P \<and> frame_loop tinfl d n i (File, P) = Some (File', P')"
  then obtain ts where ts: "frame_chunk_types d n i (At P) = Some ts"
    and run: "palette_run P File ts P' File'"
    using frame_loop_run by blast
  show "UsesNewPalette P'" using palette_runD(1) [OF run] a by simp
  have "AsepriteChunk_Palette \<notin> set ts \<longrightarrow> Palette File' = Palette File"
    using palette_runD(3) [OF run] a by simp
  with ts show "\<exists>ts. frame_chunk_types d n i (At P) = Some ts
              \<and> (AsepriteChunk_Palette \<notin> set ts \<longrightarrow> Palette File' = Palette File)"
    by blast
qed

text \<open>In \<open>modern_then_legacy_file\<close> the modern palette chunk at offset 144 sets the
  flag, and the legacy chunk at offset 192 in the next frame changes nothing: as a step,
  as the rest of its frame, as the rest of the file, and in the parse of the whole
  file.\<close>

theorem legacy_palette_ignored_after_modern_witness:
  "AsepriteParseChunk no_tinfl modern_then_legacy_file blank_file blank_frame (parser_at 144 False)
       = Some (modern_doc, blank_frame, parser_at 176 True)
   \<and> UsesNewPalette (parser_at 176 True)
   \<and> AsepriteParseChunk no_tinfl modern_then_legacy_file modern_doc blank_frame (parser_at 192 True)
       = Some (modern_doc, blank_frame, parser_at 208 True)
   \<and> UsesNewPalette (parser_at 208 True)
   \<and> chunk_types modern_then_legacy_file 1 0 192 = Some ([AsepriteChunk_OldPalette], 208)
   \<and> frame_chunk_types modern_then_legacy_file 2 1 176 = Some [AsepriteChunk_OldPalette]
   \<and> map_option (\<lambda>(File, P). Palette File)
        (frame_loop no_tinfl modern_then_legacy_file 2 1
           (modern_doc\<lparr>aseprite_file.Frames := [blank_frame, blank_frame]\<rparr>, parser_at 176 True))
       = Some (Palette modern_doc)
   \<and> map_option (\<lambda>Doc. Colors (Palette Doc))
        (AsepriteParseFile no_tinfl (\<lambda>i. 0) modern_then_legacy_file)
       = Some (Some [None, Some (AsepriteColorFromR8G8B8A8 70 80 90 255)])"
proof -
  have flag: "UsesNewPalette (parser_at 192 True)" "UsesNewPalette (parser_at 176 True)"
    by (simp_all add: parser_at_def)
  have 1: "UsesNewPalette (parser_at 176 True)"
    using legacy_palette_ignored_after_modern [where d = modern_then_legacy_file
        and P = "parser_at 144 False"
        and h = "\<lparr>ChunkSize = 32, ChunkType = AsepriteChunk_Palette\<rparr>" and tinfl = no_tinfl
        and File = blank_file and Frame = blank_frame and File' = modern_doc
        and Frame' = blank_frame and P' = "parser_at 176 True", THEN conjunct1]
      mtl_header_144 mtl_step_144
    by simp
  have 2: "UsesNewPalette (parser_at 208 True) \<and> Palette modern_doc = Palette modern_doc"
    using legacy_palette_ignored_after_modern [where d = modern_then_legacy_file
        and P = "parser_at 192 True"
        and h = "\<lparr>ChunkSize = 16, ChunkType = AsepriteChunk_OldPalette\<rparr>" and tinfl = no_tinfl
        and File = modern_doc and Frame = blank_frame and File' = modern_doc
        and Frame' = blank_frame and P' = "parser_at 208 True", THEN conjunct2, THEN conjunct1]
      flag mtl_header_192 mtl_step_192
    by simp
  have 3: "\<exists>ts. chunk_types modern_then_legacy_file 1 0 (At (parser_at 192 True))
              = Some (ts, At (parser_at 208 True))
            \<and> (AsepriteChunk_Palette \<notin> set ts \<longrightarrow> Palette modern_doc = Palette modern_doc)"
    using legacy_palette_ignored_after_modern [where d = modern_then_legacy_file
        and P = "parser_at 192 True" and tinfl = no_tinfl
        and File = modern_doc and Frame = blank_frame and File' = modern_doc
        and Frame' = blank_frame and P' = "parser_at 208 True" and n = 1 and i = 0,
        THEN conjunct2, THEN conjunct2, THEN conjunct1]
      flag mtl_chunk_loop
    by simp
  have 4: "\<exists>ts. frame_chunk_types modern_then_legacy_file 2 1 (At (parser_at 176 True)) = Some ts
            \<and> (AsepriteChunk_Palette \<notin> set ts \<longrightarrow>
                 Palette (modern_doc\<lparr>aseprite_file.Frames :=
                   [blank_frame,
                    blank_frame\<lparr>aseprite_frame.Header := Some \<lparr>BytesInFrame = 0,
                       aseprite_frame_header.MagicNumber = 0, ChunksInFrame = 1,
                       FrameDuration = 0\<rparr>\<rparr>]\<rparr>)
                 = Palette (modern_doc\<lparr>aseprite_file.Frames := [blank_frame, blank_frame]\<rparr>))"
    using legacy_palette_ignored_after_modern [where d = modern_then_legacy_file
        and P = "parser_at 176 True" and tinfl = no_tinfl
        and File = "modern_doc\<lparr>aseprite_file.Frames := [blank_frame, blank_frame]\<rparr>"
        and File' = "modern_doc\<lparr>aseprite_file.Frames :=
               [blank_frame,
                blank_frame\<lparr>aseprite_frame.Header := Some \<lparr>BytesInFrame = 0,
                   aseprite_frame_header.MagicNumber = 0, ChunksInFrame = 1,
                   FrameDuration = 0\<rparr>\<rparr>]\<rparr>"
        and P' = "parser_at 208 True" and n = 2 and i = 1,
        THEN conjunct2, THEN conjunct2, THEN conjunct2]
      flag mtl_frame_loop
    by simp
  have 5: "chunk_types modern_then_legacy_file 1 0 192 = Some ([AsepriteChunk_OldPalette], 208)"
    by (simp add: file_defs parser_simps nth_append)
  have 6: "frame_chunk_types modern_then_legacy_file 2 1 176 = Some [AsepriteChunk_OldPalette]"
    by (simp add: file_defs parser_simps nth_append)
  from 1 2 3 4 5 6 mtl_step_144 mtl_step_192 mtl_frame_loop mtl_file show ?thesis
    by simp
qed

subsection \<open>The chunk dispatcher\<close>

text \<open>
  Claim C6, as the code has it. For a chunk whose header lies in the buffer, whatever
  its type and whatever its handler reads, a dispatch step that returns leaves the
  cursor at the start of the chunk plus its declared size. A chunk of type \<open>0x0004\<close>
  is handed to the legacy palette decoder (as long as no modern palette chunk has been
  seen). A chunk of any type other than legacy palette \<open>0x0004\<close>, layer, cel and modern
  palette, the legacy type \<open>0x0011\<close> and every unrecognized type among them, is a
  step that succeeds and changes nothing but the cursor.
\<close>

theorem AsepriteParseChunk_dispatch:
  assumes h: "read_chunk_header d (At P) = Some h"
  shows "(\<forall>File' Frame' P'. AsepriteParseChunk tinfl d File Frame P = Some (File', Frame', P') \<longrightarrow>
            At P' = At P + unat (ChunkSize h))
     \<and> (ChunkType h = AsepriteChunk_OldPalette \<and> \<not> UsesNewPalette P \<longrightarrow>
          AsepriteParseChunk tinfl d File Frame P =
            map_option (\<lambda>File1. (File1, Frame, P\<lparr>At := At P + unat (ChunkSize h)\<rparr>))
              (AsepriteParseOldPalette d File (At P + sizeof_chunk_header)))
     \<and> (ChunkType h \<notin> {AsepriteChunk_OldPalette, AsepriteChunk_Layer, AsepriteChunk_Cel,
                          AsepriteChunk_Palette} \<longrightarrow>
          AsepriteParseChunk tinfl d File Frame P
            = Some (File, Frame, P\<lparr>At := At P + unat (ChunkSize h)\<rparr>))"
proof (intro conjI allI impI)
  fix File' Frame' P'
  assume "AsepriteParseChunk tinfl d File Frame P = Some (File', Frame', P')"
  then show "At P' = At P + unat (ChunkSize h)"
    by (rule AsepriteParseChunk_step(1) [OF h])
next
  assume "ChunkType h = AsepriteChunk_OldPalette \<and> \<not> UsesNewPalette P"
  then show "AsepriteParseChunk tinfl d File Frame P =
            map_option (\<lambda>File1. (File1, Frame, P\<lparr>At := At P + unat (ChunkSize h)\<rparr>))
              (AsepriteParseOldPalette d File (At P + sizeof_chunk_header))"
    by (simp add: AsepriteParseChunk_header [OF h])
next
  assume "ChunkType h \<notin> {AsepriteChunk_OldPalette, AsepriteChunk_Layer, AsepriteChunk_Cel,
                          AsepriteChunk_Palette}"
  then show "AsepriteParseChunk tinfl d File Frame P
            = Some (File, Frame, P\<lparr>At := At P + unat (ChunkSize h)\<rparr>)"
    by (simp add: AsepriteParseChunk_header [OF h])
qed

theorem AsepriteParseChunk_dispatch_witness:
  "AsepriteParseChunk no_tinfl (legacy_chunk 0x04) blank_file blank_frame (parser_at 0 False)
     = Some (blank_file\<lparr>Palette := (Palette blank_file)\<lparr>Colors :=
               Some ((replicate 256 None)
                 [1 := Some (AsepriteColorFromR8G8B8A8 10 20 30 255),
                  2 := Some (AsepriteColorFromR8G8B8A8 40 50 60 255)])\<rparr>\<rparr>,
             blank_frame, parser_at 16 False)
   \<and> AsepriteParseChunk no_tinfl unknown_chunk blank_file blank_frame (parser_at 0 False)
       = Some (blank_file, blank_frame, parser_at 8 False)"
proof -
  note legacy = AsepriteParseChunk_dispatch [OF legacy_chunk_header, of no_tinfl blank_file blank_frame]
  note unknown = AsepriteParseChunk_dispatch [OF unknown_chunk_header, of no_tinfl blank_file blank_frame]
  have "AsepriteParseChunk no_tinfl (legacy_chunk 0x04) blank_file blank_frame (parser_at 0 False)
     = map_option (\<lambda>File1. (File1, blank_frame, (parser_at 0 False)\<lparr>At := At (parser_at 0 False) + 16\<rparr>))
         (AsepriteParseOldPalette (legacy_chunk 0x04) blank_file (At (parser_at 0 False) + sizeof_chunk_header))"
    using legacy by (simp add: parser_at_def)
  then have 1: "AsepriteParseChunk no_tinfl (legacy_chunk 0x04) blank_file blank_frame (parser_at 0 False)
     = Some (blank_file\<lparr>Palette := (Palette blank_file)\<lparr>Colors :=
               Some ((replicate 256 None)
                 [1 := Some (AsepriteColorFromR8G8B8A8 10 20 30 255),
                  2 := Some (AsepriteColorFromR8G8B8A8 40 50 60 255)])\<rparr>\<rparr>,
             blank_frame, parser_at 16 False)"
    by (simp add: parser_at_def sizeof_defs legacy_chunk_table)
  have 2: "AsepriteParseChunk no_tinfl unknown_chunk blank_file blank_frame (parser_at 0 False)
       = Some (blank_file, blank_frame, parser_at 8 False)"
    using unknown by (simp add: chunk_type_defs parser_at_def)
  from 1 2 show ?thesis by simp
qed

text \<open>
  Claim C6 as stated fails for the type code \<open>0x0011\<close>: a chunk of that type is not
  routed to the legacy palette decoder. The step leaves the document without a palette
  table, where the decoder run on the same payload builds one.
\<close>

theorem AsepriteParseChunk_type_0011_counterexample:
  "read_chunk_header (legacy_chunk 0x11) 0
      = Some \<lparr>ChunkSize = 16, ChunkType = AsepriteChunk_OldPalette2\<rparr>
   \<and> AsepriteParseChunk no_tinfl (legacy_chunk 0x11) blank_file blank_frame (parser_at 0 False)
      = Some (blank_file, blank_frame, parser_at 16 False)
   \<and> legacy_table blank_file = False
   \<and> map_option legacy_table (AsepriteParseOldPalette (legacy_chunk 0x11) blank_file 6) = Some True"
  by (simp add: file_defs parser_simps)

text \<open>
  Claim C10. A dispatch step on a cel chunk that returns leaves the document as it is,
  sets the frame's layer count to the document's, and stores the decoded cel at its
  declared layer index. When the frame's layer count differed from the document's, the
  cel array of the frame is a fresh one of the document's layer count in which every
  other slot is indeterminate (earlier cels of the frame are gone); when the counts
  were equal, it is the frame's existing array with that one slot replaced.
\<close>

theorem AsepriteParseChunk_cel_slots:
  assumes h: "read_chunk_header d (At P) = Some h"
    and cel: "ChunkType h = AsepriteChunk_Cel"
    and step: "AsepriteParseChunk tinfl d File Frame P = Some (File', Frame', P')"
  shows "\<exists>ch cel. read_cel_header d (At P + sizeof_chunk_header) = Some ch
     \<and> aseprite_layer.Header cel = Some ch
     \<and> File' = File
     \<and> aseprite_frame.NumLayers Frame' = aseprite_file.NumLayers File
     \<and> (aseprite_frame.NumLayers Frame \<noteq> aseprite_file.NumLayers File \<longrightarrow>
          unat (LayerIndex ch) < nat (aseprite_file.NumLayers File)
          \<and> cel_pixels tinfl d (fresh_layer\<lparr>aseprite_layer.Header := Some ch\<rparr>) (CelType ch)
               (At P + sizeof_chunk_header + sizeof_cel_header) (sint (ChunkSize h - 6)) = Some cel
          \<and> Layers Frame' =
               Some ((replicate (nat (aseprite_file.NumLayers File)) fresh_layer)
                       [unat (LayerIndex ch) := cel]))
     \<and> (aseprite_frame.NumLayers Frame = aseprite_file.NumLayers File \<longrightarrow>
          (\<exists>slots. Layers Frame = Some slots
             \<and> unat (LayerIndex ch) < length slots
             \<and> cel_pixels tinfl d ((slots ! unat (LayerIndex ch))\<lparr>aseprite_layer.Header := Some ch\<rparr>)
                  (CelType ch) (At P + sizeof_chunk_header + sizeof_cel_header)
                  (sint (ChunkSize h - 6)) = Some cel
             \<and> Layers Frame' = Some (slots[unat (LayerIndex ch) := cel])))"
proof -
  let ?Frame1 = "if aseprite_frame.NumLayers Frame \<noteq> aseprite_file.NumLayers File then
               Frame\<lparr>aseprite_frame.NumLayers := aseprite_file.NumLayers File,
                     Layers := Some (replicate (nat (aseprite_file.NumLayers File)) fresh_layer)\<rparr>
             else Frame"
  from step cel have File': "File' = File"
    and parse: "AsepriteParseCel tinfl d ?Frame1 (At P + sizeof_chunk_header)
                  (sint (ChunkSize h - 6)) = Some Frame'"
    unfolding AsepriteParseChunk_header [OF h]
    by (auto simp add: chunk_type_defs)
  from AsepriteParseCel_result [OF parse] obtain ch slots cel where
    ch: "read_cel_header d (At P + sizeof_chunk_header) = Some ch"
    and slots: "Layers ?Frame1 = Some slots"
    and idx: "unat (LayerIndex ch) < length slots"
    and px: "cel_pixels tinfl d ((slots ! unat (LayerIndex ch))\<lparr>aseprite_layer.Header := Some ch\<rparr>)
          (CelType ch) (At P + sizeof_chunk_header + sizeof_cel_header) (sint (ChunkSize h - 6))
          = Some cel"
    and Frame': "Frame' = ?Frame1\<lparr>Layers := Some (slots[unat (LayerIndex ch) := cel])\<rparr>"
    by blast
  have hdr: "aseprite_layer.Header cel = Some ch"
    using cel_pixels_header [OF px] by simp
  have n: "aseprite_frame.NumLayers Frame' = aseprite_file.NumLayers File"
    using Frame' by (simp split: if_splits)
  show ?thesis
  proof (cases "aseprite_frame.NumLayers Frame = aseprite_file.NumLayers File")
    case True
    with slots idx px Frame' have "Layers Frame = Some slots
             \<and> unat (LayerIndex ch) < length slots
             \<and> cel_pixels tinfl d ((slots ! unat (LayerIndex ch))\<lparr>aseprite_layer.Header := Some ch\<rparr>)
                  (CelType ch) (At P + sizeof_chunk_header + sizeof_cel_header)
                  (sint (ChunkSize h - 6)) = Some cel
             \<and> Layers Frame' = Some (slots[unat (LayerIndex ch) := cel])"
      by simp
    with True ch hdr File' n show ?thesis by blast
  next
    case False
    with slots have s: "slots = replicate (nat (aseprite_file.NumLayers File)) fresh_layer"
      by simp
    with idx px Frame' False have "unat (LayerIndex ch) < nat (aseprite_file.NumLayers File)
          \<and> cel_pixels tinfl d (fresh_layer\<lparr>aseprite_layer.Header := Some ch\<rparr>) (CelType ch)
               (At P + sizeof_chunk_header + sizeof_cel_header) (sint (ChunkSize h - 6)) = Some cel
          \<and> Layers Frame' =
               Some ((replicate (nat (aseprite_file.NumLayers File)) fresh_layer)
                       [unat (LayerIndex ch) := cel])"
      by simp
    with False ch hdr File' n show ?thesis by blast
  qed
qed

text \<open>The cel chunk for layer 1, dispatched for a document of two layers: into a
  frame whose layer count is 7, and into a frame whose layer count is 2 and that holds a
  cel for layer 0.\<close>

theorem AsepriteParseChunk_cel_slots_witness:
  "AsepriteParseChunk no_tinfl cel_chunk two_layer_doc
      (blank_frame\<lparr>aseprite_frame.NumLayers := 7\<rparr>) (parser_at 0 False)
     = Some (two_layer_doc,
             blank_frame\<lparr>aseprite_frame.NumLayers := 2, Layers := Some [fresh_layer, decoded_cel]\<rparr>,
             parser_at 27 False)
   \<and> AsepriteParseChunk no_tinfl cel_chunk two_layer_doc
      (blank_frame\<lparr>aseprite_frame.NumLayers := 2,
                   Layers := Some [cel_at 3 4 1 1 [9], fresh_layer]\<rparr>) (parser_at 0 False)
     = Some (two_layer_doc,
             blank_frame\<lparr>aseprite_frame.NumLayers := 2,
                         Layers := Some [cel_at 3 4 1 1 [9], decoded_cel]\<rparr>,
             parser_at 27 False)
   \<and> (replicate (nat (aseprite_file.NumLayers two_layer_doc)) fresh_layer)[1 := decoded_cel]
       = [fresh_layer, decoded_cel]"
proof -
  have ty: "ChunkType \<lparr>ChunkSize = 27, ChunkType = AsepriteChunk_Cel\<rparr> = AsepriteChunk_Cel"
    by simp
  note fresh = AsepriteParseChunk_cel_slots [OF cel_chunk_header ty cel_chunk_fresh]
  note kept = AsepriteParseChunk_cel_slots [OF cel_chunk_header ty cel_chunk_kept]
  from fresh kept cel_chunk_fresh cel_chunk_kept show ?thesis
    by (simp add: two_layer_doc_def blank_file_def replicate_2)
qed

subsection \<open>Cel placement in the compositor\<close>

text \<open>
  Claim C7 (the importer does not do what the claim says). The compositor walks the
  canvas, not the cel, and never compares a position with the cel's width and height.
  On a canvas of 2 by 1 pixels: a cel 1 pixel wide and 2 pixels high at (0, 0) makes
  the compositor write the destination pixel (1, 0), which lies outside the cel, with
  the colour of the cel's pixel (0, 1); a cel of 1 by 1 pixel at (0, 0) makes it read
  the cel's data one byte past its end; and a cel of 1 by 1 pixel at (1, 0) makes it
  read one byte before the start of the cel's data.
\<close>

theorem compositor_ignores_cel_rectangle:
  "AsepriteGetEntireFrameRGBA (indexed_file (cel_at 0 0 1 2 [1, 2])) 0
       [9, 9, 9, 255, 9, 9, 9, 255] 2 1 0 0
     = Inr [0, 255, 0, 255, 0, 0, 255, 255]
   \<and> AsepriteGetEntireFrameRGBA (indexed_file (cel_at 0 0 1 1 [1])) 0
       [9, 9, 9, 255, 9, 9, 9, 255] 2 1 0 0
     = Inl UndefinedBehaviour
   \<and> AsepriteGetEntireFrameRGBA (indexed_file (cel_at 1 0 1 1 [1])) 0
       [9, 9, 9, 255, 9, 9, 9, 255] 2 1 0 0
     = Inl UndefinedBehaviour"
  by (simp add: example_defs compositor_simps float_simps)

end
